theory Spec2Isabelle
  imports Complex_Main "HOL-Library.Word" "HOL-Library.AList"
begin

section \<open>JavaScript values\<close>

text \<open>
  A JavaScript string is a sequence of UTF-16 code units; \<open>length\<close>, \<open>indexOf\<close> and
  \<open>slice\<close> count code units. \<open>js\<close> writes an ASCII literal.
\<close>

type_synonym jsstring = "16 word list"

definition js :: "string \<Rightarrow> jsstring" where
  "js s = map of_char s"

text \<open>
  Every value the handlers read comes out of a JSON document (the request body, the
  gateway's response body, a JSONB or TEXT column), so it is a \<open>json\<close>; the result of a
  property read may also be \<open>undefined\<close>, which is \<open>None\<close> of \<open>jsval\<close>.
  \<open>JNumber q\<close> stands for a double; \<open>q = 0\<close> exactly when the double is zero.
\<close>

datatype json =
    JNull
  | JBool bool
  | JNumber rat
  | JString jsstring
  | JArray "json list"
  | JObject "(jsstring \<times> json) list"

type_synonym jsval = "json option"

datatype gateway_failure = Transport | Non2xx | Timeout

datatype js_error =
    TypeError
  | AxiosError gateway_failure
  | PgError
  | UniqueViolation
  | SheetsError
  | NotConfigured
  | EvolutionError

fun truthy :: "json \<Rightarrow> bool" where
  "truthy JNull = False"
| "truthy (JBool b) = b"
| "truthy (JNumber q) = (q \<noteq> 0)"
| "truthy (JString s) = (s \<noteq> [])"
| "truthy (JArray xs) = True"
| "truthy (JObject kvs) = True"

fun truthy_val :: "jsval \<Rightarrow> bool" where
  "truthy_val None = False"
| "truthy_val (Some v) = truthy v"

text \<open>\<open>a || b\<close> and \<open>a && b\<close>; the second operand is only read when it is needed.\<close>

definition js_or :: "jsval \<Rightarrow> jsval \<Rightarrow> jsval" where
  "js_or a b = (if truthy_val a then a else b)"

definition js_and :: "jsval \<Rightarrow> jsval \<Rightarrow> jsval" where
  "js_and a b = (if truthy_val a then b else a)"

text \<open>\<open>a || d\<close> where the default \<open>d\<close> is a literal, so the result is never undefined.\<close>

definition or_default :: "jsval \<Rightarrow> json \<Rightarrow> json" where
  "or_default a d = (case a of None \<Rightarrow> d | Some v \<Rightarrow> if truthy v then v else d)"

text \<open>
  \<open>v.k\<close> for a value that is not null (reading a property of null throws; the
  functions that read one test for it). The handlers read only the names messages, payload, body, from, author,
  sender, text, message, data, instance, instanceName, choices, content, name, phone,
  priority, contact_method and notes, none of which strings, numbers, booleans or arrays
  inherit, so only an object's own entries answer.
\<close>

fun prop_of :: "json \<Rightarrow> jsstring \<Rightarrow> jsval" where
  "prop_of (JObject kvs) k = map_of kvs k"
| "prop_of v k = None"

text \<open>\<open>v[0]\<close> for a value that is not null.\<close>

fun index0 :: "json \<Rightarrow> jsval" where
  "index0 (JArray xs) = (case xs of [] \<Rightarrow> None | x # _ \<Rightarrow> Some x)"
| "index0 (JString s) = (case s of [] \<Rightarrow> None | c # _ \<Rightarrow> Some (JString [c]))"
| "index0 (JObject kvs) = map_of kvs (js ''0'')"
| "index0 v = None"

section \<open>The store: tables bots and temp_leads\<close>

record bot =
  bot_id :: int
  bot_instance_name :: json
  model :: json
  context_json :: json

record lead =
  name :: json
  phone :: json
  priority :: json
  contact_method :: json
  notes' :: json

record temp_lead = lead +
  lead_id :: int
  lead_bot_id :: int
  instance_name :: json
  raw_message :: json

text \<open>
  Each table is its list of rows with the value of its SERIAL sequence. A column holds
  the value that was passed for it (the driver's rendering of a parameter as TEXT is
  not modelled).
\<close>

record store =
  bots :: "bot list"
  bots_seq :: int
  temp_leads :: "temp_lead list"
  temp_leads_seq :: int

section \<open>Effects\<close>

text \<open>
  Template literals stay symbolic: the constructor names the template and its arguments
  are the interpolated values. A prompt takes the business context (which the handler
  renders with \<open>JSON.stringify\<close>) and the text of the message.
\<close>

datatype prompt =
    ReplyPrompt json jsstring
  | ExtractionPrompt json jsstring

datatype outbound_text =
    ReplyText json
  | LeadSummary json lead

datatype sql =
    SelectBot json
  | InsertBot json
  | InsertTempLead int json lead json
  | DeleteTempLead int
  | SelectTempLead int

record openrouter_request =
  req_model :: json
  req_system :: jsstring
  req_user :: prompt
  req_max_tokens :: nat
  req_temperature :: rat
  req_timeout_ms :: nat

text \<open>The trace lists every call that was attempted, in order, whether or not it succeeded.\<close>

datatype effect =
    HttpRespond nat json
  | PgQuery sql
  | AxiosPostOpenRouter openrouter_request
  | SheetsAppend "json list"
  | SendTextViaEvolution json jsval outbound_text
  | ConsoleError js_error

record world =
  db :: store
  trace :: "effect list"

definition emit :: "effect \<Rightarrow> world \<Rightarrow> world" where
  "emit e w = w\<lparr>trace := trace w @ [e]\<rparr>"

section \<open>Configuration, built-ins and outcomes of the external calls\<close>

text \<open>
  \<open>sheetsClient\<close> says whether the Sheets client was built at start-up; the two SALES
  variables are environment strings, absent or present (an empty one is falsy).
\<close>

record config =
  sheetsClient :: bool
  SALES_INSTANCE_NAME :: "jsstring option"
  SALES_WHATSAPP_NUMBER :: "jsstring option"

definition env_set :: "jsstring option \<Rightarrow> bool" where
  "env_set v = (case v of None \<Rightarrow> False | Some s \<Rightarrow> s \<noteq> [])"

text \<open>
  The language built-ins the helpers call. \<open>JSON_parse\<close> answers \<open>None\<close> where
  \<open>JSON.parse\<close> throws a SyntaxError; \<open>Array_toString\<close> is the string \<open>JSON.parse\<close>
  makes of an array argument before parsing it.
\<close>

record js_runtime =
  JSON_parse :: "jsstring \<Rightarrow> json option"
  JSON_stringify :: "json \<Rightarrow> jsstring"
  Array_toString :: "json list \<Rightarrow> jsstring"

text \<open>What \<open>axios.post\<close> to the model endpoint does: it throws, or resolves with \<open>res.data\<close>.\<close>

datatype http_outcome = HttpFailed gateway_failure | HttpOk json

text \<open>
  The outcome of each external call made for one message; \<open>False\<close> is a call that
  throws. \<open>rival_insert\<close> says that another handler, run for the same instance, commits
  its INSERT into bots between this handler's SELECT and its INSERT.
\<close>

record outcomes =
  select_bot :: bool
  rival_insert :: bool
  insert_bot :: bool
  reply_completion :: http_outcome
  extract_completion :: http_outcome
  insert_lead :: bool
  sheet_append :: bool
  notify_send :: bool
  delete_lead :: bool
  reply_send :: bool

record retry_outcomes =
  retry_select :: bool
  retry_sheet_append :: bool
  retry_notify_send :: bool
  retry_delete :: bool

section \<open>Helpers\<close>

subsection \<open>callOpenRouter (server.js 91-111)\<close>

definition default_model :: json where
  "default_model = JString (js ''x-ai/grok-4-fast:free'')"

definition openrouter_payload :: "json \<Rightarrow> prompt \<Rightarrow> rat \<Rightarrow> openrouter_request" where
  "openrouter_payload m p temperature =
     \<lparr>req_model = or_default (Some m) default_model,
      req_system = js ''You are a helpful sales assistant.'',
      req_user = p,
      req_max_tokens = 512,
      req_temperature = temperature,
      req_timeout_ms = 60000\<rparr>"

text \<open>A property or first element of a value already tested truthy (so not null).\<close>

definition prop_val :: "jsval \<Rightarrow> jsstring \<Rightarrow> jsval" where
  "prop_val a k = (case a of None \<Rightarrow> None | Some v \<Rightarrow> prop_of v k)"

definition index0_val :: "jsval \<Rightarrow> jsval" where
  "index0_val a = (case a of None \<Rightarrow> None | Some v \<Rightarrow> index0 v)"

text \<open>\<open>choices && choices[0] && choices[0].message && choices[0].message.content\<close>\<close>

definition first_content :: "json \<Rightarrow> jsval" where
  "first_content data =
     (let choices = js_and (Some data) (prop_of data (js ''choices''));
          c0 = index0_val choices;
          msg = prop_val c0 (js ''message'');
          content = prop_val msg (js ''content'')
      in js_and choices (js_and c0 (js_and msg content)))"

definition completion :: "js_runtime \<Rightarrow> json \<Rightarrow> json" where
  "completion rt data =
     (case first_content data of
        Some v \<Rightarrow> if truthy v then v else
          (case data of JString s \<Rightarrow> if s \<noteq> [] then JString s else JString (JSON_stringify rt data)
           | _ \<Rightarrow> JString (JSON_stringify rt data))
      | None \<Rightarrow>
          (case data of JString s \<Rightarrow> if s \<noteq> [] then JString s else JString (JSON_stringify rt data)
           | _ \<Rightarrow> JString (JSON_stringify rt data)))"

definition callOpenRouter ::
  "js_runtime \<Rightarrow> http_outcome \<Rightarrow> json \<Rightarrow> prompt \<Rightarrow> rat \<Rightarrow> world \<Rightarrow> (js_error + json) \<times> world" where
  "callOpenRouter rt oc m p temperature w =
     (let w1 = emit (AxiosPostOpenRouter (openrouter_payload m p temperature)) w
      in case oc of
           HttpFailed f \<Rightarrow> (Inl (AxiosError f), w1)
         | HttpOk data \<Rightarrow> (Inr (completion rt data), w1))"

subsection \<open>extractLeadStructured (server.js 113-147)\<close>

definition indexOf :: "'a \<Rightarrow> 'a list \<Rightarrow> int" where
  "indexOf x xs = (if x \<in> set xs then int (length (takeWhile (\<lambda>y. y \<noteq> x) xs)) else - 1)"

definition slice_from :: "int \<Rightarrow> 'a list \<Rightarrow> 'a list" where
  "slice_from k xs = drop (nat k) xs"

definition brace :: "16 word" where
  "brace = 0x7B"

text \<open>The record of the catch branch; \<open>(reply || '').slice(0, 2000)\<close> is its notes.\<close>

definition salvage :: "json \<Rightarrow> lead" where
  "salvage sliced =
     \<lparr>name = JNull, phone = JNull, priority = JString (js ''unknown''),
      contact_method = JString (js ''unknown''), notes' = sliced\<rparr>"

text \<open>The record of the try branch; reading a property of a parsed \<open>null\<close> throws.\<close>

definition coerce :: "json \<Rightarrow> js_error + lead" where
  "coerce parsed =
     (if parsed = JNull then Inl TypeError
      else Inr \<lparr>name = or_default (prop_of parsed (js ''name'')) JNull,
               phone = or_default (prop_of parsed (js ''phone'')) JNull,
               priority = or_default (prop_of parsed (js ''priority'')) (JString (js ''unknown'')),
               contact_method =
                 or_default (prop_of parsed (js ''contact_method'')) (JString (js ''unknown'')),
               notes' = or_default (prop_of parsed (js ''notes'')) (JString [])\<rparr>)"

text \<open>
  Lines 127-146, for the reply the gateway returned. A string has \<open>indexOf\<close> and
  \<open>slice\<close>, and so has an array (where \<open>indexOf\<close> looks for an element that is the
  string \<open>{\<close>); on any other value \<open>reply.indexOf\<close> is not a function, and the call,
  which stands before the try, throws.
\<close>

definition lead_of_reply :: "js_runtime \<Rightarrow> json \<Rightarrow> js_error + lead" where
  "lead_of_reply rt reply =
     (case reply of
        JString s \<Rightarrow>
          (let firstBrace = indexOf brace s;
               jsonText = (if firstBrace \<ge> 0 then slice_from firstBrace s else s)
           in case JSON_parse rt jsonText of
                None \<Rightarrow> Inr (salvage (JString (take 2000 s)))
              | Some parsed \<Rightarrow>
                  (case coerce parsed of
                     Inl e \<Rightarrow> Inr (salvage (JString (take 2000 s)))
                   | Inr l \<Rightarrow> Inr l))
      | JArray xs \<Rightarrow>
          (let firstBrace = indexOf (JString [brace]) xs;
               jsonText = (if firstBrace \<ge> 0 then slice_from firstBrace xs else xs)
           in case JSON_parse rt (Array_toString rt jsonText) of
                None \<Rightarrow> Inr (salvage (JArray (take 2000 xs)))
              | Some parsed \<Rightarrow>
                  (case coerce parsed of
                     Inl e \<Rightarrow> Inr (salvage (JArray (take 2000 xs)))
                   | Inr l \<Rightarrow> Inr l))
      | _ \<Rightarrow> Inl TypeError)"

definition extractLeadStructured ::
  "js_runtime \<Rightarrow> http_outcome \<Rightarrow> json \<Rightarrow> jsstring \<Rightarrow> json \<Rightarrow> world \<Rightarrow> (js_error + lead) \<times> world" where
  "extractLeadStructured rt oc m message context w =
     (case callOpenRouter rt oc m (ExtractionPrompt context message) 0 w of
        (Inl e, w1) \<Rightarrow> (Inl e, w1)
      | (Inr reply, w1) \<Rightarrow> (lead_of_reply rt reply, w1))"

subsection \<open>appendLeadToSheetRow (149-160) and sendTextViaEvolution (162-169)\<close>

text \<open>The appended row, without its first cell (the time of the call).\<close>

definition sheet_row :: "'a lead_scheme \<Rightarrow> json list" where
  "sheet_row l =
     [or_default (Some (name l)) (JString []), or_default (Some (phone l)) (JString []),
      or_default (Some (priority l)) (JString []),
      or_default (Some (contact_method l)) (JString []),
      or_default (Some (notes' l)) (JString [])]"

definition appendLeadToSheetRow :: "config \<Rightarrow> bool \<Rightarrow> lead \<Rightarrow> world \<Rightarrow> (js_error + unit) \<times> world" where
  "appendLeadToSheetRow cfg ok l w =
     (if \<not> sheetsClient cfg then (Inl NotConfigured, w)
      else let w1 = emit (SheetsAppend (sheet_row l)) w
           in if ok then (Inr (), w1) else (Inl SheetsError, w1))"

definition sendTextViaEvolution ::
  "bool \<Rightarrow> json \<Rightarrow> jsval \<Rightarrow> outbound_text \<Rightarrow> world \<Rightarrow> (js_error + unit) \<times> world" where
  "sendTextViaEvolution ok instance to txt w =
     (let w1 = emit (SendTextViaEvolution instance to txt) w
      in if ok then (Inr (), w1) else (Inl EvolutionError, w1))"

section \<open>DB operations for temp leads\<close>

text \<open>
  Each query takes the outcome the database gives it: \<open>ok = False\<close> is a query that
  throws (connection lost, statement rejected) and changes nothing.
\<close>

definition lead_ids :: "store \<Rightarrow> int set" where
  "lead_ids s = lead_id ` set (temp_leads s)"

definition delete_where_id :: "int \<Rightarrow> store \<Rightarrow> store" where
  "delete_where_id i s = s\<lparr>temp_leads := filter (\<lambda>r. lead_id r \<noteq> i) (temp_leads s)\<rparr>"

definition deleteTempLeadById :: "bool \<Rightarrow> int \<Rightarrow> world \<Rightarrow> (js_error + unit) \<times> world" where
  "deleteTempLeadById ok i w =
     (let w1 = emit (PgQuery (DeleteTempLead i)) w
      in if ok then (Inr (), w1\<lparr>db := delete_where_id i (db w1)\<rparr>) else (Inl PgError, w1))"

definition insertTempLead ::
  "bool \<Rightarrow> int \<Rightarrow> json \<Rightarrow> lead \<Rightarrow> json \<Rightarrow> world \<Rightarrow> (js_error + temp_lead) \<times> world" where
  "insertTempLead ok botId instanceName leadObj rawMsg w =
     (let w1 = emit (PgQuery (InsertTempLead botId instanceName leadObj rawMsg)) w
      in if \<not> ok then (Inl PgError, w1)
         else let i = temp_leads_seq (db w1) + 1;
                  s1 = (db w1)\<lparr>temp_leads_seq := i\<rparr>;
                  row = \<lparr>name = name leadObj, phone = phone leadObj, priority = priority leadObj,
                         contact_method = contact_method leadObj, notes' = notes' leadObj,
                         lead_id = i, lead_bot_id = botId, instance_name = instanceName,
                         raw_message = rawMsg\<rparr>
              in if find (\<lambda>r. lead_id r = i) (temp_leads s1) \<noteq> None
                 then (Inl UniqueViolation, w1\<lparr>db := s1\<rparr>)
                 else (Inr row, w1\<lparr>db := s1\<lparr>temp_leads := temp_leads s1 @ [row]\<rparr>\<rparr>))"

section \<open>Webhook route (server.js 188-265)\<close>

subsection \<open>Reading the event and a message (194-202)\<close>

text \<open>
  \<open>event.messages || (event.payload && event.payload.messages) ||
  (event.body && event.body.messages)\<close>
\<close>

definition event_messages :: "json \<Rightarrow> js_error + jsval" where
  "event_messages event =
     (if event = JNull then Inl TypeError
      else let payload = prop_of event (js ''payload'');
               body = prop_of event (js ''body'')
           in Inr (js_or (prop_of event (js ''messages''))
                    (js_or (js_and payload (prop_val payload (js ''messages'')))
                           (js_and body (prop_val body (js ''messages''))))))"

text \<open>What \<open>for (const msg of messages)\<close> iterates: the elements of an array, the code
  points of a string; any other truthy value is not iterable.\<close>

definition is_high_surrogate :: "16 word \<Rightarrow> bool" where
  "is_high_surrogate c = (0xD800 \<le> c \<and> c \<le> 0xDBFF)"

definition is_low_surrogate :: "16 word \<Rightarrow> bool" where
  "is_low_surrogate c = (0xDC00 \<le> c \<and> c \<le> 0xDFFF)"

fun code_points :: "jsstring \<Rightarrow> jsstring list" where
  "code_points [] = []"
| "code_points [c] = [[c]]"
| "code_points (c # d # r) =
     (if is_high_surrogate c \<and> is_low_surrogate d then [c, d] # code_points r
      else [c] # code_points (d # r))"

fun iterate :: "json \<Rightarrow> js_error + json list" where
  "iterate (JArray xs) = Inr xs"
| "iterate (JString s) = Inr (map JString (code_points s))"
| "iterate v = Inl TypeError"

text \<open>White space and line terminators, which \<open>trim\<close> removes at both ends.\<close>

definition is_space :: "16 word \<Rightarrow> bool" where
  "is_space c =
     (c \<in> {0x09, 0x0A, 0x0B, 0x0C, 0x0D, 0x20, 0xA0, 0x1680, 0x2028, 0x2029, 0x202F,
           0x205F, 0x3000, 0xFEFF}
      \<or> (0x2000 \<le> c \<and> c \<le> 0x200A))"

definition trim :: "jsstring \<Rightarrow> jsstring" where
  "trim s = rev (dropWhile is_space (rev (dropWhile is_space s)))"

text \<open>\<open>msg.from || msg.author || msg.sender\<close>\<close>

definition message_from :: "json \<Rightarrow> jsval" where
  "message_from msg =
     js_or (prop_of msg (js ''from''))
       (js_or (prop_of msg (js ''author'')) (prop_of msg (js ''sender'')))"

text \<open>
  \<open>(msg.body && msg.body.text) || msg.text || msg.message ||
  (msg.data && msg.data.text) || ""\<close>
\<close>

definition message_text :: "json \<Rightarrow> json" where
  "message_text msg =
     (let body = prop_of msg (js ''body'');
          data = prop_of msg (js ''data'')
      in or_default
           (js_or (js_and body (prop_val body (js ''text'')))
              (js_or (prop_of msg (js ''text''))
                 (js_or (prop_of msg (js ''message''))
                    (js_and data (prop_val data (js ''text''))))))
           (JString []))"

text \<open>
  \<open>event.instance || event.instanceName || SALES_INSTANCE_NAME || 'default-instance'\<close>
\<close>

definition instance_of :: "config \<Rightarrow> json \<Rightarrow> json" where
  "instance_of cfg event =
     or_default
       (js_or (prop_of event (js ''instance''))
          (js_or (prop_of event (js ''instanceName''))
             (map_option JString (SALES_INSTANCE_NAME cfg))))
       (JString (js ''default-instance''))"

text \<open>
  Lines 198-202: the sender, the text and the instance of a message, \<open>None\<close> where the
  loop continues with the next message. Reading a property of a null message throws,
  and so does \<open>text.trim()\<close> on a truthy text that is not a string.
\<close>

definition read_message :: "config \<Rightarrow> json \<Rightarrow> json \<Rightarrow> js_error + (jsval \<times> jsstring \<times> json) option" where
  "read_message cfg event msg =
     (if msg = JNull then Inl TypeError
      else case message_text msg of
             JString s \<Rightarrow>
               if s = [] \<or> length (trim s) = 0 then Inr None
               else if event = JNull then Inl TypeError
               else Inr (Some (message_from msg, s, instance_of cfg event))
           | t \<Rightarrow> if \<not> truthy t then Inr None else Inl TypeError)"

subsection \<open>Find or create the bot (204-212)\<close>

definition new_bot :: "int \<Rightarrow> json \<Rightarrow> bot" where
  "new_bot i instanceName =
     \<lparr>bot_id = i, bot_instance_name = instanceName, model = default_model,
      context_json = JObject []\<rparr>"

definition insert_bot_row :: "json \<Rightarrow> store \<Rightarrow> store" where
  "insert_bot_row instanceName s =
     s\<lparr>bots := bots s @ [new_bot (bots_seq s + 1) instanceName], bots_seq := bots_seq s + 1\<rparr>"

text \<open>The other handler's INSERT, which commits when no row has the instance yet.\<close>

definition rival :: "bool \<Rightarrow> json \<Rightarrow> store \<Rightarrow> store" where
  "rival active instanceName s =
     (if active \<and> find (\<lambda>b. bot_instance_name b = instanceName) (bots s) = None
      then insert_bot_row instanceName s else s)"

text \<open>
  The INSERT is rejected by the UNIQUE constraint on instance_name when a row has the
  instance; neither query stands in a try of its own.
\<close>

definition find_or_create_bot :: "outcomes \<Rightarrow> json \<Rightarrow> world \<Rightarrow> (js_error + bot) \<times> world" where
  "find_or_create_bot oc instanceName w =
     (let w1 = emit (PgQuery (SelectBot instanceName)) w
      in if \<not> select_bot oc then (Inl PgError, w1)
         else case find (\<lambda>b. bot_instance_name b = instanceName) (bots (db w1)) of
                Some b \<Rightarrow> (Inr b, w1)
              | None \<Rightarrow>
                  (let w2 = w1\<lparr>db := rival (rival_insert oc) instanceName (db w1)\<rparr>;
                       w3 = emit (PgQuery (InsertBot instanceName)) w2
                   in if \<not> insert_bot oc then (Inl PgError, w3)
                      else if find (\<lambda>b. bot_instance_name b = instanceName) (bots (db w3)) \<noteq> None
                      then (Inl UniqueViolation, w3)
                      else (Inr (new_bot (bots_seq (db w3) + 1) instanceName),
                            w3\<lparr>db := insert_bot_row instanceName (db w3)\<rparr>)))"

subsection \<open>The states after the bot is known (214-260)\<close>

definition apology :: json where
  "apology = JString (js ''Sorry, I'm having trouble right now. We'll get back to you shortly.'')"

definition fallback_lead :: lead where
  "fallback_lead =
     \<lparr>name = JNull, phone = JNull, priority = JString (js ''unknown''),
      contact_method = JString (js ''unknown''), notes' = JString []\<rparr>"

text \<open>218-223\<close>

definition generate_reply ::
  "js_runtime \<Rightarrow> outcomes \<Rightarrow> json \<Rightarrow> json \<Rightarrow> jsstring \<Rightarrow> world \<Rightarrow> json \<times> world" where
  "generate_reply rt oc m businessContext txt w =
     (case callOpenRouter rt (reply_completion oc) m (ReplyPrompt businessContext txt) (2 / 10) w of
        (Inl e, w1) \<Rightarrow> (apology, w1)
      | (Inr r, w1) \<Rightarrow> (r, w1))"

text \<open>225-230\<close>

definition extract_or_fallback ::
  "js_runtime \<Rightarrow> outcomes \<Rightarrow> json \<Rightarrow> jsstring \<Rightarrow> json \<Rightarrow> world \<Rightarrow> lead \<times> world" where
  "extract_or_fallback rt oc m txt businessContext w =
     (case extractLeadStructured rt (extract_completion oc) m txt businessContext w of
        (Inl e, w1) \<Rightarrow> (fallback_lead, w1)
      | (Inr l, w1) \<Rightarrow> (l, w1))"

text \<open>232-237\<close>

definition stage ::
  "outcomes \<Rightarrow> int \<Rightarrow> json \<Rightarrow> lead \<Rightarrow> json \<Rightarrow> world \<Rightarrow> temp_lead option \<times> world" where
  "stage oc botId instanceName leadObj msg w =
     (case insertTempLead (insert_lead oc) botId instanceName leadObj msg w of
        (Inl e, w1) \<Rightarrow> (None, w1)
      | (Inr t, w1) \<Rightarrow> (Some t, w1))"

text \<open>239-245, and 281 of the retry route\<close>

definition deliver_sheet :: "config \<Rightarrow> bool \<Rightarrow> lead \<Rightarrow> world \<Rightarrow> bool \<times> world" where
  "deliver_sheet cfg ok leadObj w =
     (if sheetsClient cfg
      then case appendLeadToSheetRow cfg ok leadObj w of
             (Inl e, w1) \<Rightarrow> (False, w1)
           | (Inr u, w1) \<Rightarrow> (True, w1)
      else (False, w))"

text \<open>\<open>SALES_INSTANCE_NAME && SALES_WHATSAPP_NUMBER\<close>\<close>

definition notify_configured :: "config \<Rightarrow> bool" where
  "notify_configured cfg =
     (env_set (SALES_INSTANCE_NAME cfg) \<and> env_set (SALES_WHATSAPP_NUMBER cfg))"

text \<open>247-254, and 282-288 of the retry route\<close>

definition deliver_notify :: "config \<Rightarrow> bool \<Rightarrow> json \<Rightarrow> lead \<Rightarrow> world \<Rightarrow> bool \<times> world" where
  "deliver_notify cfg ok instanceName leadObj w =
     (if notify_configured cfg
      then case sendTextViaEvolution ok
                  (JString (the (SALES_INSTANCE_NAME cfg)))
                  (Some (JString (the (SALES_WHATSAPP_NUMBER cfg))))
                  (LeadSummary instanceName leadObj) w of
             (Inl e, w1) \<Rightarrow> (False, w1)
           | (Inr u, w1) \<Rightarrow> (True, w1)
      else (False, w))"

text \<open>256-258\<close>

definition cleanup :: "bool \<Rightarrow> temp_lead option \<Rightarrow> bool \<Rightarrow> bool \<Rightarrow> world \<Rightarrow> world" where
  "cleanup ok tempLead sheetOk notifyOk w =
     (case tempLead of
        None \<Rightarrow> w
      | Some t \<Rightarrow>
          if sheetOk \<and> notifyOk then snd (deleteTempLeadById ok (lead_id t) w) else w)"

text \<open>260\<close>

definition send_reply :: "bool \<Rightarrow> json \<Rightarrow> jsval \<Rightarrow> json \<Rightarrow> world \<Rightarrow> world" where
  "send_reply ok instanceName from replyText w =
     snd (sendTextViaEvolution ok instanceName from (ReplyText replyText) w)"

text \<open>The variables of one turn of the loop, kept to state what the turn did.\<close>

record locals =
  replyText :: json
  leadObj :: lead
  tempLead :: "temp_lead option"
  sheetOk :: bool
  notifyOk :: bool

definition deliver ::
  "js_runtime \<Rightarrow> config \<Rightarrow> outcomes \<Rightarrow> json \<Rightarrow> jsval \<Rightarrow> jsstring \<Rightarrow> json \<Rightarrow> bot \<Rightarrow> world
     \<Rightarrow> locals \<times> world" where
  "deliver rt cfg oc msg from txt instanceName b w =
     (let m = or_default (Some (model b)) default_model;
          contextJson = or_default (Some (context_json b)) (JObject []);
          (reply, w1) = generate_reply rt oc m contextJson txt w;
          (l, w2) = extract_or_fallback rt oc m txt contextJson w1;
          (t, w3) = stage oc (bot_id b) instanceName l msg w2;
          (sOk, w4) = deliver_sheet cfg (sheet_append oc) l w3;
          (nOk, w5) = deliver_notify cfg (notify_send oc) instanceName l w4;
          w6 = cleanup (delete_lead oc) t sOk nOk w5;
          w7 = send_reply (reply_send oc) instanceName from reply w6
      in (\<lparr>replyText = reply, leadObj = l, tempLead = t, sheetOk = sOk, notifyOk = nOk\<rparr>, w7))"

subsection \<open>One turn of the loop, the loop, the handler\<close>

text \<open>
  \<open>Inl e\<close>: the turn threw \<open>e\<close> to the handler's outer catch. \<open>Inr None\<close>: the message
  was skipped. \<open>Inr (Some v)\<close>: the turn ran to its end with the variables \<open>v\<close>.
\<close>

definition handle_message ::
  "js_runtime \<Rightarrow> config \<Rightarrow> outcomes \<Rightarrow> json \<Rightarrow> json \<Rightarrow> world \<Rightarrow> (js_error + locals option) \<times> world" where
  "handle_message rt cfg oc event msg w =
     (case read_message cfg event msg of
        Inl e \<Rightarrow> (Inl e, w)
      | Inr None \<Rightarrow> (Inr None, w)
      | Inr (Some (from, txt, instanceName)) \<Rightarrow>
          (case find_or_create_bot oc instanceName w of
             (Inl e, w1) \<Rightarrow> (Inl e, w1)
           | (Inr b, w1) \<Rightarrow>
               (case deliver rt cfg oc msg from txt instanceName b w1 of
                  (v, w2) \<Rightarrow> (Inr (Some v), w2))))"

text \<open>The \<open>i\<close>-th message of the event meets the outcomes \<open>env i\<close>.\<close>

fun run_messages ::
  "js_runtime \<Rightarrow> config \<Rightarrow> (nat \<Rightarrow> outcomes) \<Rightarrow> json \<Rightarrow> nat \<Rightarrow> json list \<Rightarrow> world
     \<Rightarrow> (js_error + unit) \<times> world" where
  "run_messages rt cfg env event i [] w = (Inr (), w)"
| "run_messages rt cfg env event i (msg # msgs) w =
     (case handle_message rt cfg (env i) event msg w of
        (Inl e, w1) \<Rightarrow> (Inl e, w1)
      | (Inr v, w1) \<Rightarrow> run_messages rt cfg env event (Suc i) msgs w1)"

definition ok_body :: json where
  "ok_body = JObject [(js ''ok'', JBool True)]"

text \<open>Lines 192-264, after the response of line 190 is sent.\<close>

definition process_event ::
  "js_runtime \<Rightarrow> config \<Rightarrow> (nat \<Rightarrow> outcomes) \<Rightarrow> json \<Rightarrow> world \<Rightarrow> (js_error + unit) \<times> world" where
  "process_event rt cfg env event w =
     (case event_messages event of
        Inl e \<Rightarrow> (Inl e, w)
      | Inr None \<Rightarrow> (Inr (), w)
      | Inr (Some messages) \<Rightarrow>
          (if \<not> truthy messages then (Inr (), w)
           else (case iterate messages of
                   Inl e \<Rightarrow> (Inl e, w)
                 | Inr msgs \<Rightarrow> run_messages rt cfg env event 0 msgs w)))"

definition webhook ::
  "js_runtime \<Rightarrow> config \<Rightarrow> (nat \<Rightarrow> outcomes) \<Rightarrow> json \<Rightarrow> store \<Rightarrow> world" where
  "webhook rt cfg env event s =
     (case process_event rt cfg env event \<lparr>db = s, trace = [HttpRespond 200 ok_body]\<rparr> of
        (Inl e, w) \<Rightarrow> emit (ConsoleError e) w
      | (Inr u, w) \<Rightarrow> w)"

section \<open>Admin retry route (server.js 273-296)\<close>

definition not_found_body :: json where
  "not_found_body = JObject [(js ''error'', JString (js ''not found''))]"

definition deleted_body :: json where
  "deleted_body = JObject [(js ''ok'', JBool True), (js ''deleted'', JBool True)]"

definition failed_body :: "bool \<Rightarrow> bool \<Rightarrow> json" where
  "failed_body sOk nOk =
     JObject [(js ''ok'', JBool False), (js ''sheetOk'', JBool sOk), (js ''notifyOk'', JBool nOk)]"

text \<open>
  \<open>i\<close> is \<open>Number(req.params.id)\<close>, an integer (for any other number the lookup is
  rejected by the database, which is the outcome \<open>retry_select = False\<close>).
  \<open>Inl e\<close>: a query threw and the handler, which catches nothing, sent no response.
\<close>

definition retry_temp_lead ::
  "config \<Rightarrow> retry_outcomes \<Rightarrow> int \<Rightarrow> store \<Rightarrow> (js_error + unit) \<times> world" where
  "retry_temp_lead cfg oc i s =
     (let w1 = emit (PgQuery (SelectTempLead i)) \<lparr>db = s, trace = []\<rparr>
      in if \<not> retry_select oc then (Inl PgError, w1)
         else case find (\<lambda>r. lead_id r = i) (temp_leads (db w1)) of
                None \<Rightarrow> (Inr (), emit (HttpRespond 404 not_found_body) w1)
              | Some t \<Rightarrow>
                  (let l = \<lparr>name = name t, phone = phone t, priority = priority t,
                            contact_method = contact_method t, notes' = notes' t\<rparr>;
                       (sOk, w2) = deliver_sheet cfg (retry_sheet_append oc) l w1;
                       (nOk, w3) = deliver_notify cfg (retry_notify_send oc) (instance_name t) l w2
                   in if sOk \<and> nOk
                      then case deleteTempLeadById (retry_delete oc) i w3 of
                             (Inl e, w4) \<Rightarrow> (Inl e, w4)
                           | (Inr u, w4) \<Rightarrow> (Inr (), emit (HttpRespond 200 deleted_body) w4)
                      else (Inr (), emit (HttpRespond 200 (failed_body sOk nOk)) w3)))"

section \<open>JSON.parse on a string\<close>

text \<open>
  The grammar of ECMA-404, read the way \<open>JSON.parse\<close> reads it: a later member
  replaces an earlier one of the same key, and a number too small for a double is zero.
  The tests \<open>length r < length s\<close> hold of every result (a value takes at least one
  code unit); they are what the recursion descends on.
\<close>

definition is_json_ws :: "16 word \<Rightarrow> bool" where
  "is_json_ws c = (c = 0x20 \<or> c = 0x09 \<or> c = 0x0A \<or> c = 0x0D)"

definition skip_ws :: "jsstring \<Rightarrow> jsstring" where
  "skip_ws s = dropWhile is_json_ws s"

definition is_digit :: "16 word \<Rightarrow> bool" where
  "is_digit c = (0x30 \<le> c \<and> c \<le> 0x39)"

definition hex_digit :: "16 word \<Rightarrow> 16 word option" where
  "hex_digit c =
     (if 0x30 \<le> c \<and> c \<le> 0x39 then Some (c - 0x30)
      else if 0x61 \<le> c \<and> c \<le> 0x66 then Some (c - 0x61 + 10)
      else if 0x41 \<le> c \<and> c \<le> 0x46 then Some (c - 0x41 + 10)
      else None)"

definition hex4 :: "16 word \<Rightarrow> 16 word \<Rightarrow> 16 word \<Rightarrow> 16 word \<Rightarrow> 16 word option" where
  "hex4 a b c d =
     (case (hex_digit a, hex_digit b, hex_digit c, hex_digit d) of
        (Some x, Some y, Some z, Some u) \<Rightarrow> Some (x * 4096 + y * 256 + z * 16 + u)
      | _ \<Rightarrow> None)"

definition unescape :: "16 word \<Rightarrow> 16 word option" where
  "unescape e =
     (if e = 0x22 then Some 0x22 else if e = 0x5C then Some 0x5C else if e = 0x2F then Some 0x2F
      else if e = 0x62 then Some 0x08 else if e = 0x66 then Some 0x0C
      else if e = 0x6E then Some 0x0A else if e = 0x72 then Some 0x0D
      else if e = 0x74 then Some 0x09 else None)"

fun lex_string :: "jsstring \<Rightarrow> jsstring \<Rightarrow> (jsstring \<times> jsstring) option" where
  "lex_string acc [] = None"
| "lex_string acc (c # r) =
     (if c = 0x22 then Some (acc, r)
      else if c = 0x5C then
        (case r of
           [] \<Rightarrow> None
         | e # r1 \<Rightarrow>
             if e = 0x75 then
               (case r1 of
                  a # b # c' # d # r2 \<Rightarrow>
                    (case hex4 a b c' d of None \<Rightarrow> None | Some u \<Rightarrow> lex_string (acc @ [u]) r2)
                | _ \<Rightarrow> None)
             else (case unescape e of None \<Rightarrow> None | Some u \<Rightarrow> lex_string (acc @ [u]) r1))
      else if c < 0x20 then None
      else lex_string (acc @ [c]) r)"

definition digits_value :: "jsstring \<Rightarrow> nat" where
  "digits_value ds = foldl (\<lambda>n c. 10 * n + unat (c - 0x30)) 0 ds"

text \<open>An optional sign out of \<open>signs\<close>; the flag says that it was a minus.\<close>

definition lex_sign :: "16 word list \<Rightarrow> jsstring \<Rightarrow> (bool \<times> jsstring)" where
  "lex_sign signs s = (case s of [] \<Rightarrow> (False, s) | c # r \<Rightarrow> if c \<in> set signs then (c = 0x2D, r) else (False, s))"

definition lex_number :: "jsstring \<Rightarrow> (rat \<times> jsstring) option" where
  "lex_number s =
     (let (neg, s1) = lex_sign [0x2D] s;
          ds = takeWhile is_digit s1;
          s2 = dropWhile is_digit s1
      in if ds = [] \<or> (length ds > 1 \<and> hd ds = 0x30) then None
         else let has_frac = (s2 \<noteq> [] \<and> hd s2 = 0x2E);
                  fs = (if has_frac then takeWhile is_digit (tl s2) else []);
                  s3 = (if has_frac then dropWhile is_digit (tl s2) else s2)
              in if has_frac \<and> fs = [] then None
                 else let has_exp = (s3 \<noteq> [] \<and> (hd s3 = 0x65 \<or> hd s3 = 0x45));
                          (eneg, s4) = (if has_exp then lex_sign [0x2D, 0x2B] (tl s3) else (False, s3));
                          es = (if has_exp then takeWhile is_digit s4 else []);
                          s5 = (if has_exp then dropWhile is_digit s4 else s3)
                      in if has_exp \<and> es = [] then None
                         else let m = of_nat (digits_value ds) + of_nat (digits_value fs) / 10 ^ length fs;
                                  q = (if eneg then m / 10 ^ digits_value es else m * 10 ^ digits_value es);
                                  v = (if \<bar>q\<bar> \<le> 1 / 2 ^ 1075 then 0 else if neg then - q else q)
                              in Some (v, s5))"

function parse_value :: "jsstring \<Rightarrow> (json \<times> jsstring) option"
  and parse_elements :: "json list \<Rightarrow> jsstring \<Rightarrow> (json \<times> jsstring) option"
  and parse_members :: "(jsstring \<times> json) list \<Rightarrow> jsstring \<Rightarrow> (json \<times> jsstring) option" where
  "parse_value s =
     (case skip_ws s of
        [] \<Rightarrow> None
      | c # r \<Rightarrow>
          if c = 0x5B then
            (case skip_ws r of
               [] \<Rightarrow> None
             | d # r1 \<Rightarrow> if d = 0x5D then Some (JArray [], r1) else parse_elements [] r)
          else if c = 0x7B then
            (case skip_ws r of
               [] \<Rightarrow> None
             | d # r1 \<Rightarrow> if d = 0x7D then Some (JObject [], r1) else parse_members [] r)
          else if c = 0x22 then
            (case lex_string [] r of None \<Rightarrow> None | Some (str, r1) \<Rightarrow> Some (JString str, r1))
          else if take 4 (c # r) = js ''true'' then Some (JBool True, drop 4 (c # r))
          else if take 5 (c # r) = js ''false'' then Some (JBool False, drop 5 (c # r))
          else if take 4 (c # r) = js ''null'' then Some (JNull, drop 4 (c # r))
          else (case lex_number (c # r) of None \<Rightarrow> None | Some (q, r1) \<Rightarrow> Some (JNumber q, r1)))"
| "parse_elements acc s =
     (case parse_value s of
        None \<Rightarrow> None
      | Some (v, r) \<Rightarrow>
          if length r < length s then
            (case skip_ws r of
               [] \<Rightarrow> None
             | d # r1 \<Rightarrow>
                 if d = 0x2C then parse_elements (acc @ [v]) r1
                 else if d = 0x5D then Some (JArray (acc @ [v]), r1)
                 else None)
          else None)"
| "parse_members acc s =
     (case skip_ws s of
        [] \<Rightarrow> None
      | q # r \<Rightarrow>
          if q = 0x22 then
            (case lex_string [] r of
               None \<Rightarrow> None
             | Some (k, r1) \<Rightarrow>
                 (case skip_ws r1 of
                    [] \<Rightarrow> None
                  | col # r2 \<Rightarrow>
                      if col = 0x3A \<and> length r2 < length s then
                        (case parse_value r2 of
                           None \<Rightarrow> None
                         | Some (v, r3) \<Rightarrow>
                             if length r3 < length s then
                               (case skip_ws r3 of
                                  [] \<Rightarrow> None
                                | d # r4 \<Rightarrow>
                                    if d = 0x2C then parse_members (AList.update k v acc) r4
                                    else if d = 0x7D then Some (JObject (AList.update k v acc), r4)
                                    else None)
                             else None)
                      else None))
          else None)"
  by pat_completeness auto

termination
proof -
  have len: "\<And>s c r. skip_ws s = c # r \<Longrightarrow> length r < length s"
  proof -
    fix s :: jsstring and c r
    assume "skip_ws s = c # r"
    moreover have "length (skip_ws s) \<le> length s"
      by (simp add: skip_ws_def length_dropWhile_le)
    ultimately show "length r < length s"
      by simp
  qed
  show ?thesis
    apply (relation "measure (\<lambda>x. case x of Inl s \<Rightarrow> 2 * length s
                                    | Inr (Inl (acc, s)) \<Rightarrow> 2 * length s + 1
                                    | Inr (Inr (acc, s)) \<Rightarrow> 2 * length s + 1)")
    apply (auto dest!: len)
    done
qed

definition json_parse :: "jsstring \<Rightarrow> json option" where
  "json_parse s =
     (case parse_value s of
        None \<Rightarrow> None
      | Some (v, r) \<Rightarrow> if skip_ws r = [] then Some v else None)"

text \<open>
  The runtime of the concrete runs below. The two rendering built-ins are left open:
  every theorem holds for all of them.
\<close>

definition node :: js_runtime where
  "node = \<lparr>JSON_parse = json_parse, JSON_stringify = (\<lambda>v. undefined),
           Array_toString = (\<lambda>xs. undefined)\<rparr>"

section \<open>Reading a trace\<close>

fun is_response :: "effect \<Rightarrow> bool" where
  "is_response (HttpRespond code body) = True"
| "is_response e = False"

text \<open>The calls of line 260: instance, addressee and text of each reply sent to a sender.\<close>

fun reply_attempt :: "effect \<Rightarrow> (json \<times> jsval \<times> json) list" where
  "reply_attempt (SendTextViaEvolution inst to (ReplyText r)) = [(inst, to, r)]"
| "reply_attempt e = []"

definition reply_attempts :: "effect list \<Rightarrow> (json \<times> jsval \<times> json) list" where
  "reply_attempts tr = concat (map reply_attempt tr)"

text \<open>A message that the loop does not skip: its text is a string with more than white space.\<close>

definition has_text :: "json \<Rightarrow> bool" where
  "has_text msg = (case message_text msg of JString s \<Rightarrow> trim s \<noteq> [] | _ \<Rightarrow> False)"

section \<open>Concrete inputs\<close>

definition store0 :: store where
  "store0 = \<lparr>bots = [], bots_seq = 0, temp_leads = [], temp_leads_seq = 0\<rparr>"

definition cfg_full :: config where
  "cfg_full =
     \<lparr>sheetsClient = True, SALES_INSTANCE_NAME = Some (js ''sales''),
      SALES_WHATSAPP_NUMBER = Some (js ''15550100'')\<rparr>"

text \<open>A chat-completion body whose first choice has the given content.\<close>

definition chat_response :: "json \<Rightarrow> json" where
  "chat_response content =
     JObject [(js ''choices'', JArray [JObject [(js ''message'', JObject [(js ''content'', content)])]])]"

definition msg1 :: json where
  "msg1 = JObject [(js ''from'', JString (js ''15551234'')),
                   (js ''text'', JString (js ''call me at 555-1234, urgent''))]"

definition event1 :: json where
  "event1 = JObject [(js ''instance'', JString (js ''shop'')), (js ''messages'', JArray [msg1])]"

definition urgent_reply :: jsstring where
  "urgent_reply = js ''Here you go: {\"phone\":\"555-1234\",\"priority\":\"urgent\"}''"

definition high_reply :: jsstring where
  "high_reply = js ''{\"name\":\"\",\"priority\":\"high\",\"notes\":\"call back\"}''"

definition plain_reply :: jsstring where
  "plain_reply = js ''I cannot help with that.''"

definition all_ok :: outcomes where
  "all_ok =
     \<lparr>select_bot = True, rival_insert = False, insert_bot = True,
      reply_completion = HttpOk (chat_response (JString (js ''Hello!''))),
      extract_completion = HttpOk (chat_response (JString urgent_reply)),
      insert_lead = True, sheet_append = True, notify_send = True, delete_lead = True,
      reply_send = True\<rparr>"

definition urgent_lead :: lead where
  "urgent_lead =
     \<lparr>name = JNull, phone = JString (js ''555-1234''), priority = JString (js ''urgent''),
      contact_method = JString (js ''unknown''), notes' = JString []\<rparr>"

definition shop_bot :: bot where
  "shop_bot = new_bot 1 (JString (js ''shop''))"

definition row1 :: temp_lead where
  "row1 =
     \<lparr>name = JNull, phone = JString (js ''555-1234''), priority = JString (js ''urgent''),
      contact_method = JString (js ''unknown''), notes' = JString [],
      lead_id = 1, lead_bot_id = 1, instance_name = JString (js ''shop''), raw_message = msg1\<rparr>"

definition store1 :: store where
  "store1 = \<lparr>bots = [shop_bot], bots_seq = 1, temp_leads = [row1], temp_leads_seq = 1\<rparr>"

text \<open>An event whose first entry is null and whose second is \<open>msg1\<close>.\<close>

definition event2 :: json where
  "event2 = JObject [(js ''instance'', JString (js ''shop'')),
                     (js ''messages'', JArray [JNull, msg1])]"

text \<open>The same outcomes for every message of an event.\<close>

definition every :: "outcomes \<Rightarrow> nat \<Rightarrow> outcomes" where
  "every oc i = oc"

definition row2 :: temp_lead where
  "row2 = row1\<lparr>lead_id := 2\<rparr>"

definition store2 :: store where
  "store2 = store1\<lparr>temp_leads := [row1, row2], temp_leads_seq := 2\<rparr>"

definition retry_ok :: retry_outcomes where
  "retry_ok =
     \<lparr>retry_select = True, retry_sheet_append = True, retry_notify_send = True,
      retry_delete = True\<rparr>"

section \<open>Helper lemmas\<close>

lemma db_emit: "db (emit e w) = db w"
  by (simp add: emit_def)

lemma trace_emit: "trace (emit e w) = trace w @ [e]"
  by (simp add: emit_def)

lemma delete_where_id_absent:
  "i \<notin> lead_ids s \<Longrightarrow> delete_where_id i s = s"
proof -
  assume "i \<notin> lead_ids s"
  then have "\<forall>r \<in> set (temp_leads s). lead_id r \<noteq> i"
    by (auto simp: lead_ids_def)
  then have "filter (\<lambda>r. lead_id r \<noteq> i) (temp_leads s) = temp_leads s"
    by (simp add: filter_id_conv)
  then show ?thesis
    by (simp add: delete_where_id_def)
qed

lemma lead_ids_delete: "lead_ids (delete_where_id i s) = lead_ids s - {i}"
  by (auto simp: lead_ids_def delete_where_id_def)

lemma delete_where_id_twice:
  "delete_where_id i (delete_where_id i s) = delete_where_id i s"
  by (simp add: delete_where_id_def)

lemma find_None_lead_ids:
  "(find (\<lambda>r. lead_id r = i) (temp_leads s) = None) = (i \<notin> lead_ids s)"
  by (auto simp: find_None_iff lead_ids_def)

lemma find_Some_lead_id:
  "find (\<lambda>r. lead_id r = i) rows = Some t \<Longrightarrow> lead_id t = i \<and> t \<in> set rows"
  by (auto simp: find_Some_iff)

lemma callOpenRouter_snd:
  "snd (callOpenRouter rt oc m p t w) = emit (AxiosPostOpenRouter (openrouter_payload m p t)) w"
  by (simp add: callOpenRouter_def Let_def split: http_outcome.splits)

lemma callOpenRouter_fst:
  "fst (callOpenRouter rt oc m p t w) =
     (case oc of HttpFailed f \<Rightarrow> Inl (AxiosError f) | HttpOk d \<Rightarrow> Inr (completion rt d))"
  by (simp add: callOpenRouter_def Let_def split: http_outcome.splits)

lemma generate_reply_snd:
  "snd (generate_reply rt oc m c txt w)
     = emit (AxiosPostOpenRouter (openrouter_payload m (ReplyPrompt c txt) (2 / 10))) w"
  by (simp add: generate_reply_def callOpenRouter_def Let_def split: http_outcome.splits)

lemma generate_reply_fst:
  "fst (generate_reply rt oc m c txt w)
     = (case reply_completion oc of HttpFailed f \<Rightarrow> apology | HttpOk d \<Rightarrow> completion rt d)"
  by (simp add: generate_reply_def callOpenRouter_def Let_def split: http_outcome.splits)

lemma extractLeadStructured_snd:
  "snd (extractLeadStructured rt oc m txt c w)
     = emit (AxiosPostOpenRouter (openrouter_payload m (ExtractionPrompt c txt) 0)) w"
  by (simp add: extractLeadStructured_def callOpenRouter_def Let_def split: http_outcome.splits)

lemma extract_or_fallback_snd:
  "snd (extract_or_fallback rt oc m txt c w)
     = emit (AxiosPostOpenRouter (openrouter_payload m (ExtractionPrompt c txt) 0)) w"
  by (simp add: extract_or_fallback_def extractLeadStructured_def callOpenRouter_def Let_def
      split: http_outcome.splits sum.splits)

lemma stage_trace:
  "trace (snd (stage oc b inst l msg w)) = trace w @ [PgQuery (InsertTempLead b inst l msg)]"
  by (simp add: stage_def insertTempLead_def Let_def trace_emit)

lemma stage_Some:
  "fst (stage oc b inst l msg w) = Some t \<Longrightarrow>
     lead_id t \<in> lead_ids (db (snd (stage oc b inst l msg w)))
     \<and> lead_id t \<notin> lead_ids (db w)
     \<and> temp_leads (db (snd (stage oc b inst l msg w))) = temp_leads (db w) @ [t]
     \<and> lead.truncate t = l"
  by (auto simp: stage_def insertTempLead_def Let_def db_emit lead_ids_def find_None_iff
      lead.truncate_def split: if_splits)

lemma stage_None:
  "fst (stage oc b inst l msg w) = None \<Longrightarrow>
     temp_leads (db (snd (stage oc b inst l msg w))) = temp_leads (db w)"
  by (auto simp: stage_def insertTempLead_def Let_def db_emit split: if_splits)

lemma deliver_sheet_fst: "fst (deliver_sheet cfg ok l w) = (sheetsClient cfg \<and> ok)"
  by (simp add: deliver_sheet_def appendLeadToSheetRow_def Let_def)

lemma deliver_sheet_snd:
  "snd (deliver_sheet cfg ok l w) = (if sheetsClient cfg then emit (SheetsAppend (sheet_row l)) w else w)"
  by (simp add: deliver_sheet_def appendLeadToSheetRow_def Let_def)

lemma deliver_notify_fst:
  "fst (deliver_notify cfg ok inst l w) = (notify_configured cfg \<and> ok)"
  by (auto simp: deliver_notify_def sendTextViaEvolution_def Let_def)

lemma deliver_notify_snd:
  "snd (deliver_notify cfg ok inst l w) =
     (if notify_configured cfg
      then emit (SendTextViaEvolution (JString (the (SALES_INSTANCE_NAME cfg)))
                  (Some (JString (the (SALES_WHATSAPP_NUMBER cfg)))) (LeadSummary inst l)) w
      else w)"
  by (simp add: deliver_notify_def sendTextViaEvolution_def Let_def)

lemma cleanup_eq:
  "cleanup ok t sOk nOk w =
     (case t of None \<Rightarrow> w
      | Some r \<Rightarrow> if sOk \<and> nOk
          then (let w1 = emit (PgQuery (DeleteTempLead (lead_id r))) w
                in if ok then w1\<lparr>db := delete_where_id (lead_id r) (db w1)\<rparr> else w1)
          else w)"
  by (simp add: cleanup_def deleteTempLeadById_def Let_def split: option.splits)

lemma send_reply_eq:
  "send_reply ok inst to r w = emit (SendTextViaEvolution inst to (ReplyText r)) w"
  by (simp add: send_reply_def sendTextViaEvolution_def Let_def)

lemma cleanup_trace:
  "trace (cleanup ok t sOk nOk w) =
     trace w @ (case t of None \<Rightarrow> []
                | Some r \<Rightarrow> if sOk \<and> nOk then [PgQuery (DeleteTempLead (lead_id r))] else [])"
  by (simp add: cleanup_eq Let_def trace_emit split: option.splits)

lemma cleanup_db:
  "db (cleanup ok t sOk nOk w) =
     (case t of None \<Rightarrow> db w
      | Some r \<Rightarrow> if sOk \<and> nOk \<and> ok then delete_where_id (lead_id r) (db w) else db w)"
  by (simp add: cleanup_eq Let_def db_emit split: option.splits)

lemma deliver_sheet_db: "db (snd (deliver_sheet cfg ok l w)) = db w"
  by (simp add: deliver_sheet_snd db_emit)

lemma deliver_notify_db: "db (snd (deliver_notify cfg ok inst l w)) = db w"
  by (simp add: deliver_notify_snd db_emit)

lemma deliver_sheet_trace:
  "trace (snd (deliver_sheet cfg ok l w)) =
     trace w @ (if sheetsClient cfg then [SheetsAppend (sheet_row l)] else [])"
  by (simp add: deliver_sheet_snd trace_emit)

lemma deliver_notify_trace:
  "trace (snd (deliver_notify cfg ok inst l w)) =
     trace w @ (if notify_configured cfg
                then [SendTextViaEvolution (JString (the (SALES_INSTANCE_NAME cfg)))
                        (Some (JString (the (SALES_WHATSAPP_NUMBER cfg)))) (LeadSummary inst l)]
                else [])"
  by (simp add: deliver_notify_snd trace_emit)

lemma deliver_locals:
  "sheetOk (fst (deliver rt cfg oc msg from txt inst b w)) = (sheetsClient cfg \<and> sheet_append oc)"
  "notifyOk (fst (deliver rt cfg oc msg from txt inst b w)) = (notify_configured cfg \<and> notify_send oc)"
  "replyText (fst (deliver rt cfg oc msg from txt inst b w))
     = (case reply_completion oc of HttpFailed f \<Rightarrow> apology | HttpOk d \<Rightarrow> completion rt d)"
  by (simp_all add: deliver_def Let_def case_prod_beta deliver_sheet_fst deliver_notify_fst
      generate_reply_fst)

lemma stage_emit:
  "fst (stage oc b inst l msg (emit e w)) = fst (stage oc b inst l msg w)"
  "db (snd (stage oc b inst l msg (emit e w))) = db (snd (stage oc b inst l msg w))"
  by (simp_all add: stage_def insertTempLead_def Let_def db_emit)

lemma deliver_db:
  "db (snd (deliver rt cfg oc msg from txt inst b w)) =
     (let v = fst (deliver rt cfg oc msg from txt inst b w);
          s3 = db (snd (stage oc (bot_id b) inst (leadObj v) msg w))
      in case tempLead v of
           None \<Rightarrow> s3
         | Some r \<Rightarrow> if sheetOk v \<and> notifyOk v \<and> delete_lead oc
                      then delete_where_id (lead_id r) s3 else s3)"
  by (simp add: deliver_def Let_def case_prod_beta send_reply_eq db_emit cleanup_db
      deliver_notify_db deliver_sheet_db extract_or_fallback_snd stage_emit
      generate_reply_snd deliver_sheet_fst deliver_notify_fst split: option.splits)

lemma deliver_tempLead:
  "tempLead (fst (deliver rt cfg oc msg from txt inst b w))
     = fst (stage oc (bot_id b) inst (leadObj (fst (deliver rt cfg oc msg from txt inst b w))) msg w)"
  by (simp add: deliver_def Let_def case_prod_beta extract_or_fallback_snd stage_emit
      generate_reply_snd)


lemma completion_chat: "truthy c \<Longrightarrow> completion rt (chat_response c) = c"
  by (simp add: completion_def first_content_def chat_response_def js_and_def prop_val_def
      index0_val_def Let_def)

lemma read_msg1:
  "read_message cfg_full event1 msg1
     = Inr (Some (Some (JString (js ''15551234'')), js ''call me at 555-1234, urgent'',
                  JString (js ''shop'')))"
  by (simp add: read_message_def message_text_def message_from_def
      instance_of_def js_or_def js_and_def prop_val_def or_default_def trim_def is_space_def
      event1_def msg1_def cfg_full_def js_def)

lemma lead_of_urgent: "lead_of_reply node (JString urgent_reply) = Inr urgent_lead"
  by (simp add: lead_of_reply_def urgent_reply_def indexOf_def slice_from_def brace_def node_def
      json_parse_def skip_ws_def is_json_ws_def coerce_def urgent_lead_def or_default_def js_def)

lemma bot_store0:
  "select_bot oc \<Longrightarrow> insert_bot oc \<Longrightarrow> \<not> rival_insert oc \<Longrightarrow>
   find_or_create_bot oc (JString (js ''shop'')) \<lparr>db = store0, trace = tr\<rparr>
     = (Inr shop_bot, \<lparr>db = store0\<lparr>bots := [shop_bot], bots_seq := 1\<rparr>,
                       trace = tr @ [PgQuery (SelectBot (JString (js ''shop''))),
                                     PgQuery (InsertBot (JString (js ''shop'')))]\<rparr>)"
  by (simp add: find_or_create_bot_def Let_def emit_def store0_def rival_def insert_bot_row_def
      shop_bot_def)

lemma stage_row1:
  "insert_lead oc \<Longrightarrow> temp_leads (db w) = [] \<Longrightarrow> temp_leads_seq (db w) = 0 \<Longrightarrow>
   fst (stage oc 1 (JString (js ''shop'')) urgent_lead msg1 w) = Some row1"
  by (simp add: stage_def insertTempLead_def Let_def db_emit urgent_lead_def row1_def)

lemma find_or_create_bot_leads:
  "temp_leads (db (snd (find_or_create_bot oc inst w))) = temp_leads (db w)"
  by (simp add: find_or_create_bot_def Let_def db_emit rival_def insert_bot_row_def
      split: option.splits)

lemma find_or_create_bot_lead_ids:
  "lead_ids (db (snd (find_or_create_bot oc inst w))) = lead_ids (db w)"
  by (simp add: lead_ids_def find_or_create_bot_leads)

lemma handle_message_Some:
  "handle_message rt cfg oc event msg w = (Inr (Some v), w') \<Longrightarrow>
   \<exists>from txt inst b w1. read_message cfg event msg = Inr (Some (from, txt, inst))
      \<and> find_or_create_bot oc inst w = (Inr b, w1)
      \<and> deliver rt cfg oc msg from txt inst b w1 = (v, w')"
  by (auto simp: handle_message_def split: sum.splits option.splits prod.splits)

lemma handle_message_other:
  "handle_message rt cfg oc event msg w = (r, w') \<Longrightarrow> r = Inr None \<or> (\<exists>e. r = Inl e) \<Longrightarrow>
   temp_leads (db w') = temp_leads (db w)"
proof -
  assume h: "handle_message rt cfg oc event msg w = (r, w')" and r: "r = Inr None \<or> (\<exists>e. r = Inl e)"
  have "w' = w \<or> (\<exists>inst. w' = snd (find_or_create_bot oc inst w))"
    using h r
    by (auto simp: handle_message_def split: sum.splits option.splits prod.splits)
       (metis snd_conv)
  then show ?thesis
    using find_or_create_bot_leads by auto
qed

lemma deliver_leadObj:
  "leadObj (fst (deliver rt cfg oc msg from txt inst b w)) =
     (case extract_completion oc of
        HttpFailed f \<Rightarrow> fallback_lead
      | HttpOk d \<Rightarrow> (case lead_of_reply rt (completion rt d) of Inl e \<Rightarrow> fallback_lead | Inr l \<Rightarrow> l))"
  by (simp add: deliver_def Let_def case_prod_beta extract_or_fallback_def
      extractLeadStructured_def callOpenRouter_def split: http_outcome.splits sum.splits)

lemma deliver_row:
  assumes "deliver rt cfg oc msg from txt inst b w = (v, w')"
  shows "case tempLead v of
           None \<Rightarrow> temp_leads (db w') = temp_leads (db w)
         | Some t \<Rightarrow> lead_id t \<notin> lead_ids (db w)
             \<and> (lead_id t \<in> lead_ids (db w')) = (\<not> sheetOk v \<or> \<not> notifyOk v \<or> \<not> delete_lead oc)
             \<and> set (temp_leads (db w)) \<subseteq> set (temp_leads (db w'))"
proof -
  let ?st = "stage oc (bot_id b) inst (leadObj v) msg w"
  have v: "v = fst (deliver rt cfg oc msg from txt inst b w)"
    and w': "w' = snd (deliver rt cfg oc msg from txt inst b w)"
    using assms by simp_all
  have t: "tempLead v = fst ?st"
    unfolding v by (rule deliver_tempLead)
  have d: "db w' = (case tempLead v of
                     None \<Rightarrow> db (snd ?st)
                   | Some r \<Rightarrow> if sheetOk v \<and> notifyOk v \<and> delete_lead oc
                               then delete_where_id (lead_id r) (db (snd ?st)) else db (snd ?st))"
    unfolding v w' by (simp add: deliver_db Let_def)
  show ?thesis
  proof (cases "tempLead v")
    case None
    then show ?thesis
      using d t stage_None [of oc "bot_id b" inst "leadObj v" msg w] by simp
  next
    case (Some r)
    then have s: "fst ?st = Some r"
      using t by simp
    note f = stage_Some [OF s]
    have "set (temp_leads (db w)) \<subseteq> set (temp_leads (delete_where_id (lead_id r) (db (snd ?st))))"
      using f by (auto simp: delete_where_id_def lead_ids_def image_iff)
    then show ?thesis
      using Some d f by (auto simp: lead_ids_delete)
  qed
qed

lemma retry_temp_lead_found:
  "retry_select oc \<Longrightarrow> find (\<lambda>r. lead_id r = i) (temp_leads s) = Some t \<Longrightarrow>
   retry_temp_lead cfg oc i s =
     (let l = \<lparr>name = name t, phone = phone t, priority = priority t,
               contact_method = contact_method t, notes' = notes' t\<rparr>;
          sOk = (sheetsClient cfg \<and> retry_sheet_append oc);
          nOk = (notify_configured cfg \<and> retry_notify_send oc);
          tr = [PgQuery (SelectTempLead i)]
               @ (if sheetsClient cfg then [SheetsAppend (sheet_row l)] else [])
               @ (if notify_configured cfg
                  then [SendTextViaEvolution (JString (the (SALES_INSTANCE_NAME cfg)))
                          (Some (JString (the (SALES_WHATSAPP_NUMBER cfg))))
                          (LeadSummary (instance_name t) l)]
                  else [])
      in if sOk \<and> nOk
         then if retry_delete oc
              then (Inr (), \<lparr>db = delete_where_id i s,
                              trace = tr @ [PgQuery (DeleteTempLead i), HttpRespond 200 deleted_body]\<rparr>)
              else (Inl PgError, \<lparr>db = s, trace = tr @ [PgQuery (DeleteTempLead i)]\<rparr>)
         else (Inr (), \<lparr>db = s, trace = tr @ [HttpRespond 200 (failed_body sOk nOk)]\<rparr>))"
  by (simp add: retry_temp_lead_def Let_def case_prod_beta deliver_sheet_fst deliver_sheet_snd
      deliver_notify_fst deliver_notify_snd deleteTempLeadById_def emit_def)

lemma retry_temp_lead_db:
  "retry_select oc \<Longrightarrow> find (\<lambda>r. lead_id r = i) (temp_leads s) = Some t \<Longrightarrow>
   db (snd (retry_temp_lead cfg oc i s)) =
     (if (sheetsClient cfg \<and> retry_sheet_append oc) \<and> (notify_configured cfg \<and> retry_notify_send oc)
         \<and> retry_delete oc
      then delete_where_id i s else s)"
  by (simp add: retry_temp_lead_found Let_def)


lemma cfg_full_simps:
  "sheetsClient cfg_full" "notify_configured cfg_full"
  by (simp_all add: cfg_full_def notify_configured_def env_set_def js_def)

lemma stage_row1_db:
  "insert_lead oc \<Longrightarrow> temp_leads (db w) = [] \<Longrightarrow> temp_leads_seq (db w) = 0 \<Longrightarrow>
   db (snd (stage oc 1 (JString (js ''shop'')) urgent_lead msg1 w))
     = (db w)\<lparr>temp_leads := [row1], temp_leads_seq := 1\<rparr>"
  by (simp add: stage_def insertTempLead_def Let_def db_emit urgent_lead_def row1_def)

lemma completion_literals:
  "completion rt (chat_response (JString (js ''Hello!''))) = JString (js ''Hello!'')"
  "completion rt (chat_response (JString urgent_reply)) = JString urgent_reply"
  by (simp_all add: completion_chat js_def urgent_reply_def)

lemma row1_id: "lead_id row1 = 1"
  by (simp add: row1_def)

lemma shop_bot_simps:
  "bot_id shop_bot = 1" "model shop_bot = default_model" "context_json shop_bot = JObject []"
  by (simp_all add: shop_bot_def new_bot_def)

lemma run1:
  assumes "select_bot oc" "insert_bot oc" "\<not> rival_insert oc" "insert_lead oc"
    and "reply_completion oc = HttpOk (chat_response (JString (js ''Hello!'')))"
    and "extract_completion oc = HttpOk (chat_response (JString urgent_reply))"
  shows "fst (handle_message node cfg_full oc event1 msg1 \<lparr>db = store0, trace = tr\<rparr>)
           = Inr (Some \<lparr>replyText = JString (js ''Hello!''), leadObj = urgent_lead,
                         tempLead = Some row1, sheetOk = sheet_append oc,
                         notifyOk = notify_send oc\<rparr>)"
    and "db (snd (handle_message node cfg_full oc event1 msg1 \<lparr>db = store0, trace = tr\<rparr>))
           = \<lparr>bots = [shop_bot], bots_seq = 1,
              temp_leads = (if sheet_append oc \<and> notify_send oc \<and> delete_lead oc then [] else [row1]),
              temp_leads_seq = 1\<rparr>"
proof -
  let ?w1 = "\<lparr>db = store0\<lparr>bots := [shop_bot], bots_seq := 1\<rparr>,
              trace = tr @ [PgQuery (SelectBot (JString (js ''shop''))),
                            PgQuery (InsertBot (JString (js ''shop'')))]\<rparr>"
  let ?d = "deliver node cfg_full oc msg1 (Some (JString (js ''15551234'')))
              (js ''call me at 555-1234, urgent'') (JString (js ''shop'')) shop_bot ?w1"
  have h: "handle_message node cfg_full oc event1 msg1 \<lparr>db = store0, trace = tr\<rparr>
             = (Inr (Some (fst ?d)), snd ?d)"
    using assms(1-3) by (simp add: handle_message_def read_msg1 bot_store0 case_prod_beta)
  have l: "leadObj (fst ?d) = urgent_lead"
    by (simp add: deliver_leadObj assms completion_literals lead_of_urgent)
  have st: "temp_leads (db ?w1) = []" "temp_leads_seq (db ?w1) = 0"
    by (simp_all add: store0_def)
  have t: "tempLead (fst ?d) = Some row1"
    using stage_row1 [OF assms(4) st] by (simp add: deliver_tempLead l shop_bot_simps)
  have v: "fst ?d = \<lparr>replyText = JString (js ''Hello!''), leadObj = urgent_lead,
                      tempLead = Some row1, sheetOk = sheet_append oc,
                      notifyOk = notify_send oc\<rparr>"
    by (rule locals.equality)
       (simp_all add: l t deliver_locals assms completion_literals cfg_full_simps)
  show "fst (handle_message node cfg_full oc event1 msg1 \<lparr>db = store0, trace = tr\<rparr>)
           = Inr (Some \<lparr>replyText = JString (js ''Hello!''), leadObj = urgent_lead,
                         tempLead = Some row1, sheetOk = sheet_append oc,
                         notifyOk = notify_send oc\<rparr>)"
    by (simp add: h v)
  have "db (snd ?d) =
          (if sheetOk (fst ?d) \<and> notifyOk (fst ?d) \<and> delete_lead oc
           then delete_where_id 1 ((db ?w1)\<lparr>temp_leads := [row1], temp_leads_seq := 1\<rparr>)
           else (db ?w1)\<lparr>temp_leads := [row1], temp_leads_seq := 1\<rparr>)"
    using stage_row1_db [OF assms(4) st]
    by (simp add: deliver_db Let_def l t shop_bot_simps row1_id)
  then have "db (snd ?d) = \<lparr>bots = [shop_bot], bots_seq = 1,
              temp_leads = (if sheet_append oc \<and> notify_send oc \<and> delete_lead oc then [] else [row1]),
              temp_leads_seq = 1\<rparr>"
    by (simp add: deliver_locals cfg_full_simps delete_where_id_def store0_def row1_id)
  then show "db (snd (handle_message node cfg_full oc event1 msg1 \<lparr>db = store0, trace = tr\<rparr>))
           = \<lparr>bots = [shop_bot], bots_seq = 1,
              temp_leads = (if sheet_append oc \<and> notify_send oc \<and> delete_lead oc then [] else [row1]),
              temp_leads_seq = 1\<rparr>"
    by (simp add: h)
qed

lemma all_ok_simps:
  "select_bot all_ok" "insert_bot all_ok" "\<not> rival_insert all_ok" "insert_lead all_ok"
  "reply_completion all_ok = HttpOk (chat_response (JString (js ''Hello!'')))"
  "extract_completion all_ok = HttpOk (chat_response (JString urgent_reply))"
  "sheet_append all_ok" "notify_send all_ok" "delete_lead all_ok" "reply_send all_ok"
  by (simp_all add: all_ok_def)


lemma skip_number: "handle_message rt cfg oc event (JNumber 5) w = (Inr None, w)"
  by (simp add: handle_message_def read_message_def message_text_def js_or_def js_and_def
      prop_val_def or_default_def Let_def)

lemma find_store2: "find (\<lambda>x. lead_id x = 1) (temp_leads store2) = Some row1"
  by (simp add: store2_def store1_def row1_def)

lemma find_store1: "find (\<lambda>x. lead_id x = 1) (temp_leads store1) = Some row1"
  by (simp add: store1_def row1_def)

lemma retry_ok_simps:
  "retry_select retry_ok" "retry_sheet_append retry_ok" "retry_notify_send retry_ok"
  "retry_delete retry_ok"
  by (simp_all add: retry_ok_def)

lemma row1_lead:
  "\<lparr>name = name row1, phone = phone row1, priority = priority row1,
    contact_method = contact_method row1, notes' = notes' row1\<rparr> = urgent_lead"
  "instance_name row1 = JString (js ''shop'')"
  by (simp_all add: row1_def urgent_lead_def)

lemma cfg_full_sales:
  "the (SALES_INSTANCE_NAME cfg_full) = js ''sales''"
  "the (SALES_WHATSAPP_NUMBER cfg_full) = js ''15550100''"
  by (simp_all add: cfg_full_def)

lemma reply_attempts_append:
  "reply_attempts (xs @ ys) = reply_attempts xs @ reply_attempts ys"
  by (simp add: reply_attempts_def)

lemma reply_attempts_simps:
  "reply_attempts [] = []"
  "reply_attempts (e # es) = reply_attempt e @ reply_attempts es"
  by (simp_all add: reply_attempts_def)

lemma deliver_replies:
  "reply_attempts (trace (snd (deliver rt cfg oc msg from txt inst b w)))
     = reply_attempts (trace w) @ [(inst, from, replyText (fst (deliver rt cfg oc msg from txt inst b w)))]"
  by (simp add: deliver_def Let_def case_prod_beta send_reply_eq trace_emit cleanup_trace
      deliver_notify_trace deliver_sheet_trace stage_trace extract_or_fallback_snd
      generate_reply_snd reply_attempts_append reply_attempts_simps split: option.splits)

lemma deliver_responses:
  "filter is_response (trace (snd (deliver rt cfg oc msg from txt inst b w)))
     = filter is_response (trace w)"
  by (simp add: deliver_def Let_def case_prod_beta send_reply_eq trace_emit cleanup_trace
      deliver_notify_trace deliver_sheet_trace stage_trace extract_or_fallback_snd
      generate_reply_snd split: option.splits)

lemma deliver_prefix:
  "\<exists>xs. trace (snd (deliver rt cfg oc msg from txt inst b w)) = trace w @ xs"
  by (simp add: deliver_def Let_def case_prod_beta send_reply_eq trace_emit cleanup_trace
      deliver_notify_trace deliver_sheet_trace stage_trace extract_or_fallback_snd
      generate_reply_snd split: option.splits)

lemma find_or_create_bot_trace:
  "trace (snd (find_or_create_bot oc inst w)) =
     trace w @ PgQuery (SelectBot inst)
       # (if select_bot oc \<and> find (\<lambda>b. bot_instance_name b = inst) (bots (db w)) = None
          then [PgQuery (InsertBot inst)] else [])"
  by (simp add: find_or_create_bot_def Let_def emit_def split: option.splits)

lemma find_or_create_bot_replies:
  "reply_attempts (trace (snd (find_or_create_bot oc inst w))) = reply_attempts (trace w)"
  by (simp add: find_or_create_bot_trace reply_attempts_append reply_attempts_simps)

lemma find_or_create_bot_responses:
  "filter is_response (trace (snd (find_or_create_bot oc inst w))) = filter is_response (trace w)"
  by (simp add: find_or_create_bot_trace)

lemma find_or_create_bot_prefix:
  "\<exists>xs. trace (snd (find_or_create_bot oc inst w)) = trace w @ xs"
  by (simp add: find_or_create_bot_trace)

lemma read_message_None: "read_message cfg event msg = Inr None \<Longrightarrow> \<not> has_text msg"
  by (auto simp: read_message_def has_text_def trim_def split: if_splits json.splits)

lemma read_message_Some:
  "read_message cfg event msg = Inr (Some (sender, s, inst)) \<Longrightarrow>
     has_text msg \<and> sender = message_from msg \<and> inst = instance_of cfg event
     \<and> message_text msg = JString s"
  by (auto simp: read_message_def has_text_def split: if_splits json.splits)

lemma handle_message_cases:
  "handle_message rt cfg oc event msg w =
     (case read_message cfg event msg of
        Inl e \<Rightarrow> (Inl e, w)
      | Inr None \<Rightarrow> (Inr None, w)
      | Inr (Some (sender, s, inst)) \<Rightarrow>
          (case fst (find_or_create_bot oc inst w) of
             Inl e \<Rightarrow> (Inl e, snd (find_or_create_bot oc inst w))
           | Inr b \<Rightarrow>
               (Inr (Some (fst (deliver rt cfg oc msg sender s inst b (snd (find_or_create_bot oc inst w))))),
                snd (deliver rt cfg oc msg sender s inst b (snd (find_or_create_bot oc inst w))))))"
  by (simp add: handle_message_def case_prod_beta split: sum.splits option.splits prod.splits)

lemma handle_message_turn:
  assumes "handle_message rt cfg oc event msg w = (r, w')"
  shows "filter is_response (trace w') = filter is_response (trace w)"
    and "\<exists>xs. trace w' = trace w @ xs"
    and "r = Inr None \<Longrightarrow> \<not> has_text msg \<and> w' = w"
    and "r = Inr (Some v) \<Longrightarrow> has_text msg
           \<and> reply_attempts (trace w')
               = reply_attempts (trace w) @ [(instance_of cfg event, message_from msg, replyText v)]
           \<and> replyText v
               = (case reply_completion oc of HttpFailed f \<Rightarrow> apology | HttpOk d \<Rightarrow> completion rt d)"
    and "r = Inl e \<Longrightarrow> reply_attempts (trace w') = reply_attempts (trace w)
           \<and> (read_message cfg event msg = Inl e
               \<or> (\<exists>sender s. read_message cfg event msg = Inr (Some (sender, s, instance_of cfg event))
                     \<and> fst (find_or_create_bot oc (instance_of cfg event) w) = Inl e))"
proof -
  note h = assms [unfolded handle_message_cases]
  show "filter is_response (trace w') = filter is_response (trace w)"
    using h by (auto simp: deliver_responses find_or_create_bot_responses
        split: sum.splits option.splits prod.splits)
  show "\<exists>xs. trace w' = trace w @ xs"
  proof (cases "read_message cfg event msg")
    case (Inl e)
    then show ?thesis using h by simp
  next
    case (Inr x)
    show ?thesis
    proof (cases x)
      case None
      then show ?thesis using h Inr by simp
    next
      case (Some y)
      obtain sender s inst where y: "y = (sender, s, inst)"
        by (cases y) auto
      obtain xs where xs: "trace (snd (find_or_create_bot oc inst w)) = trace w @ xs"
        using find_or_create_bot_prefix by blast
      show ?thesis
      proof (cases "fst (find_or_create_bot oc inst w)")
        case (Inl e)
        then show ?thesis using h Inr Some y xs by auto
      next
        case (Inr b)
        obtain ys where "trace (snd (deliver rt cfg oc msg sender s inst b (snd (find_or_create_bot oc inst w))))
                           = trace (snd (find_or_create_bot oc inst w)) @ ys"
          using deliver_prefix by blast
        then show ?thesis using h \<open>read_message cfg event msg = Inr x\<close> Some y xs Inr by auto
      qed
    qed
  qed
  show "r = Inr None \<Longrightarrow> \<not> has_text msg \<and> w' = w"
    using h by (auto simp: read_message_None split: sum.splits option.splits prod.splits)
  show "r = Inr (Some v) \<Longrightarrow> has_text msg
           \<and> reply_attempts (trace w')
               = reply_attempts (trace w) @ [(instance_of cfg event, message_from msg, replyText v)]
           \<and> replyText v
               = (case reply_completion oc of HttpFailed f \<Rightarrow> apology | HttpOk d \<Rightarrow> completion rt d)"
    using h
    by (auto simp: deliver_replies find_or_create_bot_replies deliver_locals
        dest!: read_message_Some split: sum.splits option.splits prod.splits)
  show "r = Inl e \<Longrightarrow> reply_attempts (trace w') = reply_attempts (trace w)
           \<and> (read_message cfg event msg = Inl e
               \<or> (\<exists>sender s. read_message cfg event msg = Inr (Some (sender, s, instance_of cfg event))
                     \<and> fst (find_or_create_bot oc (instance_of cfg event) w) = Inl e))"
    using h
    by (auto simp: find_or_create_bot_replies dest: read_message_Some
        split: sum.splits option.splits prod.splits)
qed

lemma run_messages_trace:
  "run_messages rt cfg env event i msgs w = (r, w') \<Longrightarrow>
     filter is_response (trace w') = filter is_response (trace w)
     \<and> (\<exists>xs. trace w' = trace w @ xs)
     \<and> (r = Inr () \<longrightarrow>
          map (\<lambda>(inst, to, t). (inst, to)) (reply_attempts (trace w'))
            = map (\<lambda>(inst, to, t). (inst, to)) (reply_attempts (trace w))
              @ map (\<lambda>m. (instance_of cfg event, message_from m)) (filter has_text msgs))"
proof (induction msgs arbitrary: i w)
  case Nil
  then show ?case by simp
next
  case (Cons msg msgs)
  obtain r1 w1 where h: "handle_message rt cfg (env i) event msg w = (r1, w1)"
    by (cases "handle_message rt cfg (env i) event msg w") auto
  note t = handle_message_turn [OF h]
  show ?case
  proof (cases r1)
    case (Inl e)
    then show ?thesis
      using Cons.prems h t(1,2) by auto
  next
    case (Inr v)
    then have rest: "run_messages rt cfg env event (Suc i) msgs w1 = (r, w')"
      using Cons.prems h by simp
    note ih = Cons.IH [OF rest]
    obtain xs where xs: "trace w1 = trace w @ xs"
      using t(2) by blast
    obtain ys where ys: "trace w' = trace w1 @ ys"
      using ih by blast
    have ext: "\<exists>zs. trace w' = trace w @ zs"
      using xs ys by simp
    have resp: "filter is_response (trace w') = filter is_response (trace w)"
      using ih t(1) by simp
    have "map (\<lambda>(inst, to, t). (inst, to)) (reply_attempts (trace w1))
            = map (\<lambda>(inst, to, t). (inst, to)) (reply_attempts (trace w))
              @ map (\<lambda>m. (instance_of cfg event, message_from m)) (filter has_text [msg])"
    proof (cases v)
      case None
      then show ?thesis using t(3) Inr by simp
    next
      case (Some x)
      then show ?thesis using t(4) [of x] Inr by simp
    qed
    then show ?thesis
      using ih resp ext by simp
  qed
qed

lemma process_event_trace:
  "process_event rt cfg env event w = (r, w') \<Longrightarrow>
     filter is_response (trace w') = filter is_response (trace w)
     \<and> (\<exists>xs. trace w' = trace w @ xs)"
  using run_messages_trace [of rt cfg env event 0 _ w r w']
  by (auto simp: process_event_def split: sum.splits option.splits if_splits)

lemma webhook_trace:
  "\<exists>xs. trace (webhook rt cfg env event s) = HttpRespond 200 ok_body # xs
        \<and> filter is_response xs = []"
proof -
  let ?w0 = "\<lparr>db = s, trace = [HttpRespond 200 ok_body]\<rparr>"
  obtain r w' where p: "process_event rt cfg env event ?w0 = (r, w')"
    by (cases "process_event rt cfg env event ?w0") auto
  obtain xs where xs: "trace w' = [HttpRespond 200 ok_body] @ xs"
    using process_event_trace [OF p] by auto
  have "filter is_response (trace w') = [HttpRespond 200 ok_body]"
    using process_event_trace [OF p] by simp
  then have q: "filter is_response xs = []"
    using xs by simp
  show ?thesis
    using p xs q by (cases r) (auto simp: webhook_def emit_def)
qed

lemma webhook_replies:
  assumes "event_messages event = Inr (Some m)" "truthy m" "iterate m = Inr msgs"
    and "\<forall>e. ConsoleError e \<notin> set (trace (webhook rt cfg env event s))"
  shows "map (\<lambda>(inst, to, t). (inst, to)) (reply_attempts (trace (webhook rt cfg env event s)))
           = map (\<lambda>msg. (instance_of cfg event, message_from msg)) (filter has_text msgs)"
proof -
  let ?w0 = "\<lparr>db = s, trace = [HttpRespond 200 ok_body]\<rparr>"
  obtain r w' where p: "run_messages rt cfg env event 0 msgs ?w0 = (r, w')"
    by (cases "run_messages rt cfg env event 0 msgs ?w0") auto
  have pe: "process_event rt cfg env event ?w0 = (r, w')"
    using assms(1-3) p by (simp add: process_event_def)
  have "r = Inr ()"
  proof (cases r)
    case (Inl e)
    then have "ConsoleError e \<in> set (trace (webhook rt cfg env event s))"
      using pe by (simp add: webhook_def emit_def)
    then show ?thesis using assms(4) by blast
  next
    case (Inr u)
    then show ?thesis by simp
  qed
  then have "webhook rt cfg env event s = w'"
    using pe by (simp add: webhook_def)
  then show ?thesis
    using run_messages_trace [OF p] \<open>r = Inr ()\<close>
    by (simp add: reply_attempts_simps)
qed

lemma message_text_null: "message_text JNull = JString []"
  by (simp add: message_text_def or_default_def js_or_def js_and_def prop_val_def Let_def)

lemma has_text_read_message:
  assumes "has_text msg" "event \<noteq> JNull"
  shows "\<exists>s. read_message cfg event msg = Inr (Some (message_from msg, s, instance_of cfg event))"
proof -
  obtain s where s: "message_text msg = JString s" "trim s \<noteq> []"
    using assms(1) by (auto simp: has_text_def split: json.splits)
  have n: "msg \<noteq> JNull"
    using s message_text_null by (auto simp: trim_def)
  have "s \<noteq> []"
    using s(2) by (auto simp: trim_def)
  then have "read_message cfg event msg = Inr (Some (message_from msg, s, instance_of cfg event))"
    using s n assms(2) by (simp add: read_message_def)
  then show ?thesis by blast
qed

lemma event1_messages: "event_messages event1 = Inr (Some (JArray [msg1]))"
  by (simp add: event_messages_def event1_def Let_def js_or_def js_def)

lemma has_text_msg1: "has_text msg1"
  using read_msg1 read_message_None [of cfg_full event1 msg1]
    read_message_Some [of cfg_full event1 msg1] by blast

lemma instance_event1: "instance_of cfg event1 = JString (js ''shop'')"
  by (simp add: instance_of_def event1_def js_or_def or_default_def js_def)

lemma from_msg1: "message_from msg1 = Some (JString (js ''15551234''))"
  by (simp add: message_from_def msg1_def js_or_def js_def)

lemma webhook_event1:
  "webhook rt cfg env event1 s =
     (case handle_message rt cfg (env 0) event1 msg1 \<lparr>db = s, trace = [HttpRespond 200 ok_body]\<rparr> of
        (Inl e, w) \<Rightarrow> emit (ConsoleError e) w
      | (Inr v, w) \<Rightarrow> w)"
  by (simp add: webhook_def process_event_def event1_messages split: sum.splits prod.splits)

lemma select_fails:
  "\<not> select_bot oc \<Longrightarrow>
   webhook rt cfg_full (every oc) event1 store0
     = \<lparr>db = store0,
        trace = [HttpRespond 200 ok_body, PgQuery (SelectBot (JString (js ''shop''))),
                 ConsoleError PgError]\<rparr>"
  by (simp add: webhook_event1 handle_message_def read_msg1 find_or_create_bot_def Let_def
      emit_def every_def)

lemma run1_webhook:
  assumes "select_bot oc" "insert_bot oc" "\<not> rival_insert oc" "insert_lead oc"
    and "reply_completion oc = HttpOk (chat_response (JString (js ''Hello!'')))"
    and "extract_completion oc = HttpOk (chat_response (JString urgent_reply))"
  shows "fst (process_event node cfg_full (every oc) event1
                \<lparr>db = store0, trace = [HttpRespond 200 ok_body]\<rparr>) = Inr ()"
  using run1(1) [OF assms, of "[HttpRespond 200 ok_body]"]
  by (simp add: process_event_def event1_messages every_def case_prod_beta split: sum.splits)

lemma distinct_find_filter:
  "distinct (map f xs) \<Longrightarrow> find (\<lambda>x. f x = k) xs = Some b \<Longrightarrow> filter (\<lambda>x. f x = k) xs = [b]"
proof (induction xs)
  case Nil
  then show ?case by simp
next
  case (Cons x xs)
  show ?case
  proof (cases "f x = k")
    case True
    then have "\<forall>y \<in> set xs. f y \<noteq> k"
      using Cons.prems(1) by (auto simp: image_iff)
    then have "filter (\<lambda>x. f x = k) xs = []"
      by (simp add: filter_empty_conv)
    then show ?thesis using True Cons.prems(2) by simp
  next
    case False
    then show ?thesis using Cons by simp
  qed
qed

lemma find_None_filter:
  "find (\<lambda>x. f x = k) xs = None \<Longrightarrow> filter (\<lambda>x. f x = k) xs = []"
  by (simp add: find_None_iff filter_empty_conv)

lemma find_None_distinct:
  "find (\<lambda>x. f x = k) xs = None \<Longrightarrow> distinct (map f xs) \<Longrightarrow> f b = k \<Longrightarrow>
   distinct (map f (xs @ [b]))"
  by (auto simp: find_None_iff image_iff)

lemma insert_bot_row_props:
  assumes "find (\<lambda>b. bot_instance_name b = inst) (bots s) = None"
    and "distinct (map bot_instance_name (bots s))"
  shows "distinct (map bot_instance_name (bots (insert_bot_row inst s)))"
    and "filter (\<lambda>b. bot_instance_name b = inst) (bots (insert_bot_row inst s))
           = [new_bot (bots_seq s + 1) inst]"
    and "find (\<lambda>b. bot_instance_name b = inst) (bots (insert_bot_row inst s)) \<noteq> None"
  using assms find_None_distinct [of bot_instance_name inst "bots s" "new_bot (bots_seq s + 1) inst"]
  by (auto simp: insert_bot_row_def new_bot_def find_None_iff filter_empty_conv)

lemma insert_bot_row_found:
  "find (\<lambda>b. bot_instance_name b = inst) (bots (insert_bot_row inst s)) \<noteq> None"
  by (auto simp: insert_bot_row_def find_None_iff new_bot_def)

lemma find_or_create_bot_eq:
  "find_or_create_bot oc inst w =
     (if \<not> select_bot oc then (Inl PgError, emit (PgQuery (SelectBot inst)) w)
      else case find (\<lambda>b. bot_instance_name b = inst) (bots (db w)) of
             Some b \<Rightarrow> (Inr b, emit (PgQuery (SelectBot inst)) w)
           | None \<Rightarrow>
               if rival_insert oc
               then (if insert_bot oc then Inl UniqueViolation else Inl PgError,
                     \<lparr>db = insert_bot_row inst (db w),
                      trace = trace w @ [PgQuery (SelectBot inst), PgQuery (InsertBot inst)]\<rparr>)
               else if insert_bot oc
               then (Inr (new_bot (bots_seq (db w) + 1) inst),
                     \<lparr>db = insert_bot_row inst (db w),
                      trace = trace w @ [PgQuery (SelectBot inst), PgQuery (InsertBot inst)]\<rparr>)
               else (Inl PgError,
                     \<lparr>db = db w,
                      trace = trace w @ [PgQuery (SelectBot inst), PgQuery (InsertBot inst)]\<rparr>))"
proof (cases "find (\<lambda>b. bot_instance_name b = inst) (bots (db w))")
  case None
  show ?thesis
    using None insert_bot_row_found [of inst "db w"] by (simp add: find_or_create_bot_def Let_def emit_def rival_def)
next
  case (Some b)
  then show ?thesis
    by (simp add: find_or_create_bot_def Let_def emit_def)
qed

lemma rival_store0:
  "select_bot oc \<Longrightarrow> insert_bot oc \<Longrightarrow> rival_insert oc \<Longrightarrow>
   find_or_create_bot oc (JString (js ''shop'')) \<lparr>db = store0, trace = tr\<rparr>
     = (Inl UniqueViolation,
        \<lparr>db = store0\<lparr>bots := [shop_bot], bots_seq := 1\<rparr>,
         trace = tr @ [PgQuery (SelectBot (JString (js ''shop''))),
                       PgQuery (InsertBot (JString (js ''shop'')))]\<rparr>)"
  by (simp add: find_or_create_bot_eq store0_def insert_bot_row_def shop_bot_def)

lemma completion_string: "\<not> truthy_val (first_content data) \<Longrightarrow> \<exists>s. completion rt data = JString s"
  by (cases "first_content data") (auto simp: completion_def split: json.splits)

lemma completion_content: "first_content data = Some c \<Longrightarrow> truthy c \<Longrightarrow> completion rt data = c"
  by (simp add: completion_def)

lemma completion_fallback:
  "\<not> truthy_val (first_content data) \<Longrightarrow>
   completion rt data = (case data of JString s \<Rightarrow> if s \<noteq> [] then JString s else JString (JSON_stringify rt data)
                          | _ \<Rightarrow> JString (JSON_stringify rt data))"
  by (cases "first_content data") (auto simp: completion_def)

lemma first_content_shape:
  "prop_of data (js ''choices'') = Some (JArray (ch # rest)) \<Longrightarrow>
   prop_of ch (js ''message'') = Some mg \<Longrightarrow> truthy ch \<Longrightarrow> truthy mg \<Longrightarrow>
   prop_of mg (js ''content'') = c \<Longrightarrow> first_content data = c"
  by (cases data) (auto simp: first_content_def js_and_def prop_val_def index0_val_def Let_def)

lemma extractLeadStructured_fst:
  "fst (extractLeadStructured rt oc m msg ctx w) =
     (case oc of HttpFailed f \<Rightarrow> Inl (AxiosError f) | HttpOk d \<Rightarrow> lead_of_reply rt (completion rt d))"
  by (simp add: extractLeadStructured_def callOpenRouter_def Let_def split: http_outcome.splits)

lemma lead_of_reply_string:
  "lead_of_reply rt (JString s) =
     (case JSON_parse rt (if 0 \<le> indexOf brace s then slice_from (indexOf brace s) s else s) of
        None \<Rightarrow> Inr (salvage (JString (take 2000 s)))
      | Some parsed \<Rightarrow>
          if parsed = JNull then Inr (salvage (JString (take 2000 s)))
          else Inr \<lparr>name = or_default (prop_of parsed (js ''name'')) JNull,
                    phone = or_default (prop_of parsed (js ''phone'')) JNull,
                    priority = or_default (prop_of parsed (js ''priority'')) (JString (js ''unknown'')),
                    contact_method =
                      or_default (prop_of parsed (js ''contact_method'')) (JString (js ''unknown'')),
                    notes' = or_default (prop_of parsed (js ''notes'')) (JString [])\<rparr>)"
  by (simp add: lead_of_reply_def Let_def coerce_def split: option.splits)

lemma lead_of_reply_Inl:
  "(\<exists>e. lead_of_reply rt v = Inl e) = (case v of JString s \<Rightarrow> False | JArray xs \<Rightarrow> False | _ \<Rightarrow> True)"
  by (cases v) (auto simp: lead_of_reply_def Let_def split: option.splits sum.splits)

lemma json_text_no_brace:
  "brace \<notin> set s \<Longrightarrow> (if 0 \<le> indexOf brace s then slice_from (indexOf brace s) s else s) = s"
  by (simp add: indexOf_def)

lemma json_text_brace:
  "brace \<in> set s \<Longrightarrow>
   (if 0 \<le> indexOf brace s then slice_from (indexOf brace s) s else s)
     = dropWhile (\<lambda>c. c \<noteq> brace) s"
  by (simp add: indexOf_def slice_from_def dropWhile_eq_drop)

lemma urgent_text:
  "(if 0 \<le> indexOf brace urgent_reply then slice_from (indexOf brace urgent_reply) urgent_reply
    else urgent_reply) = js ''{\"phone\":\"555-1234\",\"priority\":\"urgent\"}''"
  by (simp add: urgent_reply_def indexOf_def slice_from_def brace_def js_def)

lemma urgent_parsed:
  "json_parse (js ''{\"phone\":\"555-1234\",\"priority\":\"urgent\"}'')
     = Some (JObject [(js ''phone'', JString (js ''555-1234'')),
                      (js ''priority'', JString (js ''urgent''))])"
  by (simp add: json_parse_def skip_ws_def is_json_ws_def js_def)

lemma high_text:
  "(if 0 \<le> indexOf brace high_reply then slice_from (indexOf brace high_reply) high_reply
    else high_reply) = high_reply"
  by (simp add: high_reply_def indexOf_def slice_from_def brace_def js_def)

lemma high_parsed:
  "json_parse high_reply
     = Some (JObject [(js ''name'', JString []), (js ''priority'', JString (js ''high'')),
                      (js ''notes'', JString (js ''call back''))])"
  by (simp add: high_reply_def json_parse_def skip_ws_def is_json_ws_def js_def)

lemma plain_text: "brace \<notin> set plain_reply"
  by (simp add: plain_reply_def brace_def js_def)

lemma plain_parsed: "json_parse plain_reply = None"
  by (simp add: plain_reply_def json_parse_def skip_ws_def is_json_ws_def is_digit_def
      lex_number_def lex_sign_def js_def)

lemma plain_take: "take 2000 plain_reply = plain_reply"
  by (simp add: plain_reply_def js_def)

lemma node_parse: "JSON_parse node = json_parse"
  by (simp add: node_def)

lemma completion_replies:
  "completion rt (chat_response (JString high_reply)) = JString high_reply"
  "completion rt (chat_response (JString plain_reply)) = JString plain_reply"
  by (simp_all add: completion_chat js_def high_reply_def plain_reply_def)

lemma run_messages_Cons_Inl:
  "handle_message rt cfg (env j) event msg w = (Inl e, w1) \<Longrightarrow>
   run_messages rt cfg env event j (msg # rest) w = (Inl e, w1)"
  by simp

lemma run_messages_Cons_Inr:
  "handle_message rt cfg (env j) event msg w = (Inr u, w1) \<Longrightarrow>
   run_messages rt cfg env event j (msg # rest) w = run_messages rt cfg env event (Suc j) rest w1"
  by simp

lemma run_messages_abort:
  "run_messages rt cfg env event j rest w = (Inl e, w1) \<Longrightarrow>
   \<exists>k wk. k < length rest
     \<and> run_messages rt cfg env event j (take k rest) w = (Inr (), wk)
     \<and> handle_message rt cfg (env (j + k)) event (rest ! k) wk = (Inl e, w1)
     \<and> map (\<lambda>(inst, to, t). (inst, to)) (reply_attempts (trace w1))
         = map (\<lambda>(inst, to, t). (inst, to)) (reply_attempts (trace w))
           @ map (\<lambda>m. (instance_of cfg event, message_from m)) (filter has_text (take k rest))"
proof (induction rest arbitrary: j w)
  case Nil
  then show ?case by simp
next
  case (Cons msg msgs)
  obtain r1 wa where h: "handle_message rt cfg (env j) event msg w = (r1, wa)"
    by (cases "handle_message rt cfg (env j) event msg w") auto
  note t = handle_message_turn [OF h]
  show ?case
  proof (cases r1)
    case (Inl e1)
    then have "e1 = e" "wa = w1"
      using Cons.prems h by simp_all
    then have "handle_message rt cfg (env (j + 0)) event ((msg # msgs) ! 0) w = (Inl e, w1)"
      using h Inl by simp
    moreover have "reply_attempts (trace w1) = reply_attempts (trace w)"
      using t(5) [of e1] Inl \<open>wa = w1\<close> by simp
    ultimately have "0 < length (msg # msgs)
      \<and> run_messages rt cfg env event j (take 0 (msg # msgs)) w = (Inr (), w)
      \<and> handle_message rt cfg (env (j + 0)) event ((msg # msgs) ! 0) w = (Inl e, w1)
      \<and> map (\<lambda>(inst, to, t). (inst, to)) (reply_attempts (trace w1))
         = map (\<lambda>(inst, to, t). (inst, to)) (reply_attempts (trace w))
           @ map (\<lambda>m. (instance_of cfg event, message_from m))
               (filter has_text (take 0 (msg # msgs)))"
      by simp
    then show ?thesis by blast
  next
    case (Inr v)
    then have rest: "run_messages rt cfg env event (Suc j) msgs wa = (Inl e, w1)"
      using Cons.prems h by simp
    obtain k wk where k: "k < length msgs"
      and rk: "run_messages rt cfg env event (Suc j) (take k msgs) wa = (Inr (), wk)"
      and hk: "handle_message rt cfg (env (Suc j + k)) event (msgs ! k) wk = (Inl e, w1)"
      and pk: "map (\<lambda>(inst, to, t). (inst, to)) (reply_attempts (trace w1))
         = map (\<lambda>(inst, to, t). (inst, to)) (reply_attempts (trace wa))
           @ map (\<lambda>m. (instance_of cfg event, message_from m)) (filter has_text (take k msgs))"
      using Cons.IH [OF rest] by blast
    have first: "map (\<lambda>(inst, to, t). (inst, to)) (reply_attempts (trace wa))
            = map (\<lambda>(inst, to, t). (inst, to)) (reply_attempts (trace w))
              @ map (\<lambda>m. (instance_of cfg event, message_from m)) (filter has_text [msg])"
    proof (cases v)
      case None
      then show ?thesis using t(3) Inr by simp
    next
      case (Some x)
      then show ?thesis using t(4) [of x] Inr by simp
    qed
    have "Suc k < length (msg # msgs)
      \<and> run_messages rt cfg env event j (take (Suc k) (msg # msgs)) w = (Inr (), wk)
      \<and> handle_message rt cfg (env (j + Suc k)) event ((msg # msgs) ! Suc k) wk = (Inl e, w1)
      \<and> map (\<lambda>(inst, to, t). (inst, to)) (reply_attempts (trace w1))
         = map (\<lambda>(inst, to, t). (inst, to)) (reply_attempts (trace w))
           @ map (\<lambda>m. (instance_of cfg event, message_from m))
               (filter has_text (take (Suc k) (msg # msgs)))"
      using k rk hk pk first h Inr by simp
    then show ?thesis by blast
  qed
qed

lemma null_turn: "handle_message rt cfg oc event JNull w = (Inl TypeError, w)"
  by (simp add: handle_message_def read_message_def)

lemma event2_messages: "event_messages event2 = Inr (Some (JArray [JNull, msg1]))"
  by (simp add: event_messages_def event2_def Let_def js_or_def js_def)

section \<open>Claims\<close>

text \<open>
  C1. The staged row after a run on one message. As stated the claim fails: the row
  also stays when staging and both deliveries succeeded and the DELETE of the cleanup
  threw (the webhook swallows that error in its \<open>catch\<close>, the retry route lets it
  escape). What holds: after a turn of the webhook loop that ran to its end, the row
  staged in that turn is in the store exactly when staging succeeded and the sheet
  append, the notification or the cleanup DELETE did not succeed; no row that was in
  the store before is removed; a turn that skips the message or throws stages nothing.
  After a retry on a row that the lookup found, the row is in the store exactly when
  one of the two deliveries or the DELETE did not succeed, and every other row stays.
\<close>

theorem C1_staged_row:
  "(handle_message rt cfg oc event msg w = (Inr (Some v), w') \<longrightarrow>
      sheetOk v = (sheetsClient cfg \<and> sheet_append oc)
      \<and> notifyOk v = (notify_configured cfg \<and> notify_send oc)
      \<and> (case tempLead v of
            None \<Rightarrow> temp_leads (db w') = temp_leads (db w)
          | Some t \<Rightarrow> lead_id t \<notin> lead_ids (db w)
              \<and> (lead_id t \<in> lead_ids (db w'))
                  = (\<not> sheetOk v \<or> \<not> notifyOk v \<or> \<not> delete_lead oc)
              \<and> set (temp_leads (db w)) \<subseteq> set (temp_leads (db w'))))
   \<and> (handle_message rt cfg oc event msg w = (r, w') \<and> (r = Inr None \<or> (\<exists>e. r = Inl e)) \<longrightarrow>
        temp_leads (db w') = temp_leads (db w))
   \<and> (retry_select ro \<and> find (\<lambda>x. lead_id x = i) (temp_leads s) = Some t' \<longrightarrow>
        (i \<in> lead_ids (db (snd (retry_temp_lead cfg ro i s))))
          = (\<not> (sheetsClient cfg \<and> retry_sheet_append ro)
             \<or> \<not> (notify_configured cfg \<and> retry_notify_send ro) \<or> \<not> retry_delete ro)
        \<and> (\<forall>x \<in> set (temp_leads s). lead_id x \<noteq> i \<longrightarrow>
              x \<in> set (temp_leads (db (snd (retry_temp_lead cfg ro i s))))))"
proof (intro conjI impI)
  assume h: "handle_message rt cfg oc event msg w = (Inr (Some v), w')"
  then obtain sender tx inst b w1 where
    b: "find_or_create_bot oc inst w = (Inr b, w1)" and
    d: "deliver rt cfg oc msg sender tx inst b w1 = (v, w')"
    using handle_message_Some by blast
  have v: "v = fst (deliver rt cfg oc msg sender tx inst b w1)"
    using d by simp
  show "sheetOk v = (sheetsClient cfg \<and> sheet_append oc)"
    unfolding v by (rule deliver_locals)
  show "notifyOk v = (notify_configured cfg \<and> notify_send oc)"
    unfolding v by (rule deliver_locals)
  have l: "temp_leads (db w1) = temp_leads (db w)"
    using find_or_create_bot_leads [of oc inst w] b by simp
  then have "lead_ids (db w1) = lead_ids (db w)"
    by (simp add: lead_ids_def)
  then show "case tempLead v of
            None \<Rightarrow> temp_leads (db w') = temp_leads (db w)
          | Some t \<Rightarrow> lead_id t \<notin> lead_ids (db w)
              \<and> (lead_id t \<in> lead_ids (db w'))
                  = (\<not> sheetOk v \<or> \<not> notifyOk v \<or> \<not> delete_lead oc)
              \<and> set (temp_leads (db w)) \<subseteq> set (temp_leads (db w'))"
    using deliver_row [OF d] l by (simp split: option.splits)
next
  assume "handle_message rt cfg oc event msg w = (r, w') \<and> (r = Inr None \<or> (\<exists>e. r = Inl e))"
  then show "temp_leads (db w') = temp_leads (db w)"
    using handle_message_other by blast
next
  assume a: "retry_select ro \<and> find (\<lambda>x. lead_id x = i) (temp_leads s) = Some t'"
  then have mem: "i \<in> lead_ids s"
    using find_Some_lead_id [of i "temp_leads s" t'] by (auto simp: lead_ids_def)
  show "(i \<in> lead_ids (db (snd (retry_temp_lead cfg ro i s))))
          = (\<not> (sheetsClient cfg \<and> retry_sheet_append ro)
             \<or> \<not> (notify_configured cfg \<and> retry_notify_send ro) \<or> \<not> retry_delete ro)"
    using a mem by (simp add: retry_temp_lead_db lead_ids_delete)
  show "\<forall>x \<in> set (temp_leads s). lead_id x \<noteq> i \<longrightarrow>
              x \<in> set (temp_leads (db (snd (retry_temp_lead cfg ro i s))))"
    using a by (simp add: retry_temp_lead_db delete_where_id_def)
qed

theorem C1_counterexample:
  "fst (handle_message node cfg_full (all_ok\<lparr>delete_lead := False\<rparr>) event1 msg1
          \<lparr>db = store0, trace = []\<rparr>)
     = Inr (Some \<lparr>replyText = JString (js ''Hello!''), leadObj = urgent_lead,
                   tempLead = Some row1, sheetOk = True, notifyOk = True\<rparr>)
   \<and> lead_id row1 \<in> lead_ids (db (snd (handle_message node cfg_full
        (all_ok\<lparr>delete_lead := False\<rparr>) event1 msg1 \<lparr>db = store0, trace = []\<rparr>)))"
  using run1 [of "all_ok\<lparr>delete_lead := False\<rparr>" "[]"]
  by (simp add: all_ok_simps lead_ids_def)

theorem C1_staged_row_witness:
  "fst (handle_message node cfg_full (all_ok\<lparr>sheet_append := False\<rparr>) event1 msg1
          \<lparr>db = store0, trace = []\<rparr>)
     = Inr (Some \<lparr>replyText = JString (js ''Hello!''), leadObj = urgent_lead,
                   tempLead = Some row1, sheetOk = False, notifyOk = True\<rparr>)
   \<and> lead_id row1 \<in> lead_ids (db (snd (handle_message node cfg_full
        (all_ok\<lparr>sheet_append := False\<rparr>) event1 msg1 \<lparr>db = store0, trace = []\<rparr>)))
   \<and> handle_message node cfg_full all_ok event1 (JNumber 5) \<lparr>db = store1, trace = []\<rparr>
       = (Inr None, \<lparr>db = store1, trace = []\<rparr>)
   \<and> retry_select retry_ok \<and> find (\<lambda>x. lead_id x = 1) (temp_leads store2) = Some row1
   \<and> 1 \<notin> lead_ids (db (snd (retry_temp_lead cfg_full retry_ok 1 store2)))
   \<and> row2 \<in> set (temp_leads (db (snd (retry_temp_lead cfg_full retry_ok 1 store2))))"
proof -
  let ?oc = "all_ok\<lparr>sheet_append := False\<rparr>"
  let ?w0 = "\<lparr>db = store0, trace = []\<rparr>"
  let ?v = "\<lparr>replyText = JString (js ''Hello!''), leadObj = urgent_lead,
             tempLead = Some row1, sheetOk = False, notifyOk = True\<rparr>"
  have f: "fst (handle_message node cfg_full ?oc event1 msg1 ?w0) = Inr (Some ?v)"
    using run1(1) [of ?oc "[]"] by (simp add: all_ok_simps)
  then have h: "handle_message node cfg_full ?oc event1 msg1 ?w0
                  = (Inr (Some ?v), snd (handle_message node cfg_full ?oc event1 msg1 ?w0))"
    by (simp add: prod_eq_iff)
  have k: "handle_message node cfg_full all_ok event1 (JNumber 5) \<lparr>db = store1, trace = []\<rparr>
             = (Inr None, \<lparr>db = store1, trace = []\<rparr>)"
    by (rule skip_number)
  have r2: "row2 \<in> set (temp_leads store2)" "lead_id row2 \<noteq> 1"
    by (simp_all add: store2_def row2_def)
  note a = C1_staged_row [of node cfg_full ?oc event1 msg1 ?w0 ?v
      "snd (handle_message node cfg_full ?oc event1 msg1 ?w0)" "Inr None" retry_ok 1 store2 row1]
  note b = C1_staged_row [of node cfg_full all_ok event1 "JNumber 5" "\<lparr>db = store1, trace = []\<rparr>" ?v
      "\<lparr>db = store1, trace = []\<rparr>" "Inr None" retry_ok 1 store2 row1]
  show ?thesis
    using a b h f k r2 by (simp add: retry_ok_simps find_store2 cfg_full_simps all_ok_simps)
qed

text \<open>
  C2. The extractor and its salvage record. As stated the claim fails: the gateway call
  stands before the try, so the extractor throws when the gateway fails (and when the
  reply is neither a string nor an array); the handler catches that. What holds: the
  extractor throws in exactly those cases; whenever the gateway returns a string and its
  parse fails (\<open>JSON.parse\<close> throws on the text from the first brace, or on the whole
  reply when it has no brace, or yields null), the result is the record with null name
  and phone, priority and contact method "unknown", and the reply cut to 2000 code
  units as notes.
\<close>

theorem C2_extract_salvage:
  "((\<exists>e. fst (extractLeadStructured rt oc m msg ctx w) = Inl e)
      \<longleftrightarrow> ((\<exists>f. oc = HttpFailed f)
           \<or> (\<exists>d. oc = HttpOk d
                 \<and> (case completion rt d of JString s \<Rightarrow> False | JArray xs \<Rightarrow> False | _ \<Rightarrow> True))))
   \<and> (oc = HttpFailed f \<longrightarrow> fst (extractLeadStructured rt oc m msg ctx w) = Inl (AxiosError f))
   \<and> (oc = HttpOk d \<and> completion rt d = JString s
        \<and> (JSON_parse rt (if 0 \<le> indexOf brace s then slice_from (indexOf brace s) s else s) = None
            \<or> JSON_parse rt (if 0 \<le> indexOf brace s then slice_from (indexOf brace s) s else s)
                = Some JNull)
       \<longrightarrow> fst (extractLeadStructured rt oc m msg ctx w)
            = Inr \<lparr>name = JNull, phone = JNull, priority = JString (js ''unknown''),
                    contact_method = JString (js ''unknown''), notes' = JString (take 2000 s)\<rparr>)
   \<and> (brace \<notin> set s \<longrightarrow>
        (if 0 \<le> indexOf brace s then slice_from (indexOf brace s) s else s) = s)
   \<and> (brace \<in> set s \<longrightarrow>
        (if 0 \<le> indexOf brace s then slice_from (indexOf brace s) s else s)
          = dropWhile (\<lambda>c. c \<noteq> brace) s)"
proof (intro conjI impI)
  show "(\<exists>e. fst (extractLeadStructured rt oc m msg ctx w) = Inl e)
      \<longleftrightarrow> ((\<exists>f. oc = HttpFailed f)
           \<or> (\<exists>d. oc = HttpOk d
                 \<and> (case completion rt d of JString s \<Rightarrow> False | JArray xs \<Rightarrow> False | _ \<Rightarrow> True)))"
    by (cases oc) (simp_all add: extractLeadStructured_fst lead_of_reply_Inl)
next
  assume "oc = HttpFailed f"
  then show "fst (extractLeadStructured rt oc m msg ctx w) = Inl (AxiosError f)"
    by (simp add: extractLeadStructured_fst)
next
  assume "oc = HttpOk d \<and> completion rt d = JString s
        \<and> (JSON_parse rt (if 0 \<le> indexOf brace s then slice_from (indexOf brace s) s else s) = None
            \<or> JSON_parse rt (if 0 \<le> indexOf brace s then slice_from (indexOf brace s) s else s)
                = Some JNull)"
  then show "fst (extractLeadStructured rt oc m msg ctx w)
            = Inr \<lparr>name = JNull, phone = JNull, priority = JString (js ''unknown''),
                    contact_method = JString (js ''unknown''), notes' = JString (take 2000 s)\<rparr>"
    by (auto simp: extractLeadStructured_fst lead_of_reply_string salvage_def)
next
  assume "brace \<notin> set s"
  then show "(if 0 \<le> indexOf brace s then slice_from (indexOf brace s) s else s) = s"
    by (rule json_text_no_brace)
next
  assume "brace \<in> set s"
  then show "(if 0 \<le> indexOf brace s then slice_from (indexOf brace s) s else s)
          = dropWhile (\<lambda>c. c \<noteq> brace) s"
    by (rule json_text_brace)
qed

theorem C2_counterexample:
  "fst (extractLeadStructured node (HttpFailed Timeout) default_model
          (js ''call me at 555-1234, urgent'') (JObject []) \<lparr>db = store0, trace = []\<rparr>)
     = Inl (AxiosError Timeout)"
  by (simp add: extractLeadStructured_fst)

theorem C2_extract_salvage_witness:
  "completion node (chat_response (JString plain_reply)) = JString plain_reply
   \<and> brace \<notin> set plain_reply
   \<and> JSON_parse node plain_reply = None
   \<and> fst (extractLeadStructured node (HttpOk (chat_response (JString plain_reply))) default_model
            (js ''call me at 555-1234, urgent'') (JObject []) \<lparr>db = store0, trace = []\<rparr>)
       = Inr \<lparr>name = JNull, phone = JNull, priority = JString (js ''unknown''),
               contact_method = JString (js ''unknown''), notes' = JString plain_reply\<rparr>"
  using C2_extract_salvage [of node "HttpOk (chat_response (JString plain_reply))" default_model
      "js ''call me at 555-1234, urgent''" "JObject []" "\<lparr>db = store0, trace = []\<rparr>" _
      "chat_response (JString plain_reply)" plain_reply]
  by (simp add: completion_replies plain_text plain_parsed plain_take node_parse
      json_text_no_brace)

text \<open>
  C3. One reply per message with text. As stated the claim fails: when the bot cannot
  be resolved (its SELECT or INSERT throws) the error reaches the handler's outer catch,
  and this message and the ones after it get no reply. What holds: when processing an
  event does not throw to the outer catch, the replies attempted are exactly one per
  message whose text is a string with more than white space, in order, each to the
  sender of its message through the instance of the event. A turn for such a message
  whose bot is resolved runs to its end whatever the later calls do, and attempts
  exactly one reply, carrying the completion or, when the gateway failed, the apology;
  a skipped message gets none; a turn throws only when reading the message throws or
  the bot cannot be resolved, and then attempts none. A turn that throws ends the
  loop: the entries after it are not processed, the replies attempted are those of the
  entries with text before it, and the handler logs the error and does nothing more.
\<close>

theorem C3_one_reply_per_message:
  "(event_messages event = Inr (Some m) \<and> truthy m \<and> iterate m = Inr msgs
      \<and> fst (process_event rt cfg env event \<lparr>db = s, trace = [HttpRespond 200 ok_body]\<rparr>) = Inr ()
    \<longrightarrow> map (\<lambda>(inst, to, t). (inst, to)) (reply_attempts (trace (webhook rt cfg env event s)))
          = map (\<lambda>msg. (instance_of cfg event, message_from msg)) (filter has_text msgs))
   \<and> (has_text msg \<and> event \<noteq> JNull
        \<and> fst (find_or_create_bot oc (instance_of cfg event) w) = Inr b
       \<longrightarrow> (\<exists>v. fst (handle_message rt cfg oc event msg w) = Inr (Some v)))
   \<and> (handle_message rt cfg oc event msg w = (Inr (Some v), w') \<longrightarrow>
        has_text msg
        \<and> reply_attempts (trace w')
            = reply_attempts (trace w) @ [(instance_of cfg event, message_from msg, replyText v)]
        \<and> replyText v
            = (case reply_completion oc of HttpFailed f \<Rightarrow> apology | HttpOk d \<Rightarrow> completion rt d))
   \<and> (handle_message rt cfg oc event msg w = (Inr None, w') \<longrightarrow> \<not> has_text msg \<and> w' = w)
   \<and> (handle_message rt cfg oc event msg w = (Inl e, w') \<longrightarrow>
        reply_attempts (trace w') = reply_attempts (trace w)
        \<and> (read_message cfg event msg = Inl e
            \<or> (\<exists>sender t. read_message cfg event msg = Inr (Some (sender, t, instance_of cfg event))
                  \<and> fst (find_or_create_bot oc (instance_of cfg event) w) = Inl e)))
   \<and> (handle_message rt cfg (env j) event msg w = (Inl e, w1) \<longrightarrow>
        run_messages rt cfg env event j (msg # rest) w = (Inl e, w1))
   \<and> (handle_message rt cfg (env j) event msg w = (Inr u, w1) \<longrightarrow>
        run_messages rt cfg env event j (msg # rest) w
          = run_messages rt cfg env event (Suc j) rest w1)
   \<and> (run_messages rt cfg env event j rest w = (Inl e, w1) \<longrightarrow>
        (\<exists>k wk. k < length rest
           \<and> run_messages rt cfg env event j (take k rest) w = (Inr (), wk)
           \<and> handle_message rt cfg (env (j + k)) event (rest ! k) wk = (Inl e, w1)
           \<and> map (\<lambda>(inst, to, t). (inst, to)) (reply_attempts (trace w1))
               = map (\<lambda>(inst, to, t). (inst, to)) (reply_attempts (trace w))
                 @ map (\<lambda>m. (instance_of cfg event, message_from m))
                     (filter has_text (take k rest))))
   \<and> (fst (process_event rt cfg env event \<lparr>db = s, trace = [HttpRespond 200 ok_body]\<rparr>) = Inl e
       \<longrightarrow> webhook rt cfg env event s
            = emit (ConsoleError e)
                (snd (process_event rt cfg env event \<lparr>db = s, trace = [HttpRespond 200 ok_body]\<rparr>)))"
proof (intro conjI impI)
  assume a: "event_messages event = Inr (Some m) \<and> truthy m \<and> iterate m = Inr msgs
      \<and> fst (process_event rt cfg env event \<lparr>db = s, trace = [HttpRespond 200 ok_body]\<rparr>) = Inr ()"
  let ?w0 = "\<lparr>db = s, trace = [HttpRespond 200 ok_body]\<rparr>"
  have p: "process_event rt cfg env event ?w0 = run_messages rt cfg env event 0 msgs ?w0"
    using a by (simp add: process_event_def)
  then have f: "fst (run_messages rt cfg env event 0 msgs ?w0) = Inr ()"
    using a by simp
  then have r: "run_messages rt cfg env event 0 msgs ?w0
                  = (Inr (), snd (run_messages rt cfg env event 0 msgs ?w0))"
    by (simp add: prod_eq_iff)
  have "webhook rt cfg env event s = snd (run_messages rt cfg env event 0 msgs ?w0)"
    using f by (simp add: webhook_def p case_prod_beta)
  then show "map (\<lambda>(inst, to, t). (inst, to)) (reply_attempts (trace (webhook rt cfg env event s)))
          = map (\<lambda>msg. (instance_of cfg event, message_from msg)) (filter has_text msgs)"
    using run_messages_trace [OF r] by (simp add: reply_attempts_simps)
next
  assume a: "has_text msg \<and> event \<noteq> JNull
        \<and> fst (find_or_create_bot oc (instance_of cfg event) w) = Inr b"
  then obtain t where "read_message cfg event msg = Inr (Some (message_from msg, t, instance_of cfg event))"
    using has_text_read_message by blast
  then show "\<exists>v. fst (handle_message rt cfg oc event msg w) = Inr (Some v)"
    using a by (simp add: handle_message_cases)
next
  assume "handle_message rt cfg oc event msg w = (Inr (Some v), w')"
  from handle_message_turn(4) [OF this]
  show "has_text msg" 
    and "reply_attempts (trace w')
            = reply_attempts (trace w) @ [(instance_of cfg event, message_from msg, replyText v)]"
    and "replyText v
            = (case reply_completion oc of HttpFailed f \<Rightarrow> apology | HttpOk d \<Rightarrow> completion rt d)"
    by simp_all
next
  assume "handle_message rt cfg oc event msg w = (Inr None, w')"
  from handle_message_turn(3) [OF this]
  show "\<not> has_text msg" and "w' = w"
    by simp_all
next
  assume "handle_message rt cfg oc event msg w = (Inl e, w')"
  from handle_message_turn(5) [OF this]
  show "reply_attempts (trace w') = reply_attempts (trace w)"
    and "read_message cfg event msg = Inl e
            \<or> (\<exists>sender t. read_message cfg event msg = Inr (Some (sender, t, instance_of cfg event))
                  \<and> fst (find_or_create_bot oc (instance_of cfg event) w) = Inl e)"
    by simp_all
next
  assume "handle_message rt cfg (env j) event msg w = (Inl e, w1)"
  then show "run_messages rt cfg env event j (msg # rest) w = (Inl e, w1)"
    by (rule run_messages_Cons_Inl)
next
  assume "handle_message rt cfg (env j) event msg w = (Inr u, w1)"
  then show "run_messages rt cfg env event j (msg # rest) w
          = run_messages rt cfg env event (Suc j) rest w1"
    by (rule run_messages_Cons_Inr)
next
  assume "run_messages rt cfg env event j rest w = (Inl e, w1)"
  then show "\<exists>k wk. k < length rest
           \<and> run_messages rt cfg env event j (take k rest) w = (Inr (), wk)
           \<and> handle_message rt cfg (env (j + k)) event (rest ! k) wk = (Inl e, w1)
           \<and> map (\<lambda>(inst, to, t). (inst, to)) (reply_attempts (trace w1))
               = map (\<lambda>(inst, to, t). (inst, to)) (reply_attempts (trace w))
                 @ map (\<lambda>m. (instance_of cfg event, message_from m))
                     (filter has_text (take k rest))"
    by (rule run_messages_abort)
next
  assume "fst (process_event rt cfg env event \<lparr>db = s, trace = [HttpRespond 200 ok_body]\<rparr>) = Inl e"
  then show "webhook rt cfg env event s
            = emit (ConsoleError e)
                (snd (process_event rt cfg env event \<lparr>db = s, trace = [HttpRespond 200 ok_body]\<rparr>))"
    by (simp add: webhook_def case_prod_beta)
qed

theorem C3_counterexample:
  "event_messages event1 = Inr (Some (JArray [msg1])) \<and> has_text msg1
   \<and> trace (webhook node cfg_full (every (all_ok\<lparr>select_bot := False\<rparr>)) event1 store0)
       = [HttpRespond 200 ok_body, PgQuery (SelectBot (JString (js ''shop''))),
          ConsoleError PgError]"
  by (simp add: event1_messages has_text_msg1 select_fails)

theorem C3_one_reply_per_message_witness:
  "event_messages event1 = Inr (Some (JArray [msg1])) \<and> truthy (JArray [msg1])
   \<and> iterate (JArray [msg1]) = Inr [msg1]
   \<and> fst (process_event node cfg_full (every (all_ok\<lparr>sheet_append := False, reply_send := False\<rparr>))
             event1 \<lparr>db = store0, trace = [HttpRespond 200 ok_body]\<rparr>) = Inr ()
   \<and> has_text msg1 \<and> event1 \<noteq> JNull
   \<and> map (\<lambda>(inst, to, t). (inst, to))
        (reply_attempts (trace (webhook node cfg_full
           (every (all_ok\<lparr>sheet_append := False, reply_send := False\<rparr>)) event1 store0)))
       = [(JString (js ''shop''), Some (JString (js ''15551234'')))]
   \<and> event_messages event2 = Inr (Some (JArray [JNull, msg1]))
   \<and> handle_message node cfg_full (every all_ok 0) event2 JNull
         \<lparr>db = store0, trace = [HttpRespond 200 ok_body]\<rparr>
       = (Inl TypeError, \<lparr>db = store0, trace = [HttpRespond 200 ok_body]\<rparr>)
   \<and> run_messages node cfg_full (every all_ok) event2 0 [JNull, msg1]
         \<lparr>db = store0, trace = [HttpRespond 200 ok_body]\<rparr>
       = (Inl TypeError, \<lparr>db = store0, trace = [HttpRespond 200 ok_body]\<rparr>)
   \<and> webhook node cfg_full (every all_ok) event2 store0
       = \<lparr>db = store0, trace = [HttpRespond 200 ok_body, ConsoleError TypeError]\<rparr>
   \<and> reply_attempts (trace (webhook node cfg_full (every all_ok) event2 store0)) = []"
proof -
  let ?oc = "all_ok\<lparr>sheet_append := False, reply_send := False\<rparr>"
  let ?w0 = "\<lparr>db = store0, trace = [HttpRespond 200 ok_body]\<rparr>"
  have p: "fst (process_event node cfg_full (every ?oc) event1 ?w0) = Inr ()"
    by (rule run1_webhook) (simp_all add: all_ok_simps)
  have n: "event1 \<noteq> JNull"
    by (simp add: event1_def)
  have i: "iterate (JArray [msg1]) = Inr [msg1]" "truthy (JArray [msg1])"
    by simp_all
  note t = C3_one_reply_per_message [where event = event1 and m = "JArray [msg1]"
      and msgs = "[msg1]" and rt = node and cfg = cfg_full and env = "every ?oc" and s = store0,
      THEN conjunct1]
  have first: "map (\<lambda>(inst, to, t). (inst, to))
        (reply_attempts (trace (webhook node cfg_full (every ?oc) event1 store0)))
       = [(JString (js ''shop''), Some (JString (js ''15551234'')))]"
    using t p n i by (simp add: event1_messages has_text_msg1 instance_event1 from_msg1)
  have h: "handle_message node cfg_full (every all_ok 0) event2 JNull ?w0 = (Inl TypeError, ?w0)"
    by (rule null_turn)
  note u = C3_one_reply_per_message [where rt = node and cfg = cfg_full and env = "every all_ok"
      and j = 0 and event = event2 and msg = JNull and w = ?w0 and e = TypeError and ?w1.0 = ?w0
      and rest = "[msg1]" and s = store0]
  have r: "run_messages node cfg_full (every all_ok) event2 0 [JNull, msg1] ?w0
             = (Inl TypeError, ?w0)"
    using u h by blast
  have pe: "process_event node cfg_full (every all_ok) event2 ?w0 = (Inl TypeError, ?w0)"
    using r by (simp add: process_event_def event2_messages)
  have w: "webhook node cfg_full (every all_ok) event2 store0
             = \<lparr>db = store0, trace = [HttpRespond 200 ok_body, ConsoleError TypeError]\<rparr>"
    using u pe by (simp add: emit_def)
  show ?thesis
    using p n i first h r w
    by (simp add: event1_messages event2_messages has_text_msg1 reply_attempts_simps)
qed

text \<open>
  C4. The admin retry on a staged lead that the lookup finds. As stated the claim fails:
  when both deliveries succeed and the DELETE throws, the row stays and no response is
  sent. What holds: the retry makes no model call; it appends the row's stored fields to
  the sheet when a client is configured, sends the summary of those fields when the sales
  channel is configured, and then, when both succeeded, issues the DELETE and, if that
  succeeds, the row is gone and the response is \<open>{ok: true, deleted: true}\<close>; when a
  delivery did not succeed the row stays, no DELETE is issued and the response is
  \<open>{ok: false, sheetOk, notifyOk}\<close>.
\<close>

theorem C4_retry:
  "retry_select oc \<and> find (\<lambda>r. lead_id r = i) (temp_leads s) = Some t \<longrightarrow>
   retry_temp_lead cfg oc i s =
     (let l = \<lparr>name = name t, phone = phone t, priority = priority t,
               contact_method = contact_method t, notes' = notes' t\<rparr>;
          sOk = (sheetsClient cfg \<and> retry_sheet_append oc);
          nOk = (notify_configured cfg \<and> retry_notify_send oc);
          tr = [PgQuery (SelectTempLead i)]
               @ (if sheetsClient cfg then [SheetsAppend (sheet_row l)] else [])
               @ (if notify_configured cfg
                  then [SendTextViaEvolution (JString (the (SALES_INSTANCE_NAME cfg)))
                          (Some (JString (the (SALES_WHATSAPP_NUMBER cfg))))
                          (LeadSummary (instance_name t) l)]
                  else [])
      in if sOk \<and> nOk
         then if retry_delete oc
              then (Inr (), \<lparr>db = delete_where_id i s,
                              trace = tr @ [PgQuery (DeleteTempLead i), HttpRespond 200 deleted_body]\<rparr>)
              else (Inl PgError, \<lparr>db = s, trace = tr @ [PgQuery (DeleteTempLead i)]\<rparr>)
         else (Inr (), \<lparr>db = s, trace = tr @ [HttpRespond 200 (failed_body sOk nOk)]\<rparr>))
   \<and> i \<in> lead_ids s \<and> i \<notin> lead_ids (delete_where_id i s)"
proof (intro impI conjI)
  assume a: "retry_select oc \<and> find (\<lambda>r. lead_id r = i) (temp_leads s) = Some t"
  then show "retry_temp_lead cfg oc i s =
     (let l = \<lparr>name = name t, phone = phone t, priority = priority t,
               contact_method = contact_method t, notes' = notes' t\<rparr>;
          sOk = (sheetsClient cfg \<and> retry_sheet_append oc);
          nOk = (notify_configured cfg \<and> retry_notify_send oc);
          tr = [PgQuery (SelectTempLead i)]
               @ (if sheetsClient cfg then [SheetsAppend (sheet_row l)] else [])
               @ (if notify_configured cfg
                  then [SendTextViaEvolution (JString (the (SALES_INSTANCE_NAME cfg)))
                          (Some (JString (the (SALES_WHATSAPP_NUMBER cfg))))
                          (LeadSummary (instance_name t) l)]
                  else [])
      in if sOk \<and> nOk
         then if retry_delete oc
              then (Inr (), \<lparr>db = delete_where_id i s,
                              trace = tr @ [PgQuery (DeleteTempLead i), HttpRespond 200 deleted_body]\<rparr>)
              else (Inl PgError, \<lparr>db = s, trace = tr @ [PgQuery (DeleteTempLead i)]\<rparr>)
         else (Inr (), \<lparr>db = s, trace = tr @ [HttpRespond 200 (failed_body sOk nOk)]\<rparr>))"
    using retry_temp_lead_found [of oc i s t cfg] by simp
  show "i \<in> lead_ids s"
    using a find_Some_lead_id [of i "temp_leads s" t] by (auto simp: lead_ids_def)
  show "i \<notin> lead_ids (delete_where_id i s)"
    by (simp add: lead_ids_delete)
qed

theorem C4_counterexample:
  "retry_temp_lead cfg_full (retry_ok\<lparr>retry_delete := False\<rparr>) 1 store1
     = (Inl PgError,
        \<lparr>db = store1,
         trace = [PgQuery (SelectTempLead 1), SheetsAppend (sheet_row urgent_lead),
                  SendTextViaEvolution (JString (js ''sales'')) (Some (JString (js ''15550100'')))
                    (LeadSummary (JString (js ''shop'')) urgent_lead),
                  PgQuery (DeleteTempLead 1)]\<rparr>)
   \<and> 1 \<in> lead_ids store1"
  using retry_temp_lead_found [of "retry_ok\<lparr>retry_delete := False\<rparr>" 1 store1 row1 cfg_full]
  by (simp add: retry_ok_simps find_store1 cfg_full_simps row1_lead cfg_full_sales Let_def
      lead_ids_def store1_def row1_id)

theorem C4_retry_witness:
  "retry_select retry_ok \<and> find (\<lambda>r. lead_id r = 1) (temp_leads store1) = Some row1
   \<and> retry_temp_lead cfg_full retry_ok 1 store1
     = (Inr (),
        \<lparr>db = store1\<lparr>temp_leads := []\<rparr>,
         trace = [PgQuery (SelectTempLead 1), SheetsAppend (sheet_row urgent_lead),
                  SendTextViaEvolution (JString (js ''sales'')) (Some (JString (js ''15550100'')))
                    (LeadSummary (JString (js ''shop'')) urgent_lead),
                  PgQuery (DeleteTempLead 1), HttpRespond 200 deleted_body]\<rparr>)"
  using C4_retry [of retry_ok 1 store1 row1 cfg_full]
  by (simp add: retry_ok_simps find_store1 cfg_full_simps row1_lead cfg_full_sales Let_def
      delete_where_id_def store1_def row1_id)

text \<open>
  C5. The model gateway. As stated the claim fails: the first choice's content is
  returned whenever it is truthy, also when it is not a string, so a successful exchange
  does not always yield a string. What holds: the call makes one request, with a timeout
  of 60000 ms; it throws exactly when the exchange fails (transport, status outside 2xx,
  timeout), with that failure; on a successful exchange it returns the first choice's
  content when that is truthy (the completion's text for a response of the expected
  shape), and otherwise a string: the body itself when it is a non-empty string, else
  its serialization.
\<close>

theorem C5_complete:
  "snd (callOpenRouter rt oc m p t w) = emit (AxiosPostOpenRouter (openrouter_payload m p t)) w
   \<and> req_timeout_ms (openrouter_payload m p t) = 60000
   \<and> ((\<exists>e. fst (callOpenRouter rt oc m p t w) = Inl e) \<longleftrightarrow> (\<exists>f. oc = HttpFailed f))
   \<and> (oc = HttpFailed f \<longrightarrow> fst (callOpenRouter rt oc m p t w) = Inl (AxiosError f))
   \<and> (oc = HttpOk data \<and> first_content data = Some c \<and> truthy c \<longrightarrow>
        fst (callOpenRouter rt oc m p t w) = Inr c)
   \<and> (oc = HttpOk data \<and> \<not> truthy_val (first_content data) \<longrightarrow>
        fst (callOpenRouter rt oc m p t w)
          = Inr (case data of
                   JString s \<Rightarrow> if s \<noteq> [] then JString s else JString (JSON_stringify rt data)
                 | _ \<Rightarrow> JString (JSON_stringify rt data))
        \<and> (\<exists>s. fst (callOpenRouter rt oc m p t w) = Inr (JString s)))
   \<and> (prop_of data (js ''choices'') = Some (JArray (ch # rest))
        \<and> prop_of ch (js ''message'') = Some mg \<and> truthy ch \<and> truthy mg
       \<longrightarrow> first_content data = prop_of mg (js ''content''))"
proof -
  have "\<not> truthy_val (first_content data) \<Longrightarrow>
          \<exists>s. (case data of
                  JString s \<Rightarrow> if s \<noteq> [] then JString s else JString (JSON_stringify rt data)
                | _ \<Rightarrow> JString (JSON_stringify rt data)) = JString s"
    by (cases data) auto
  then show ?thesis
    using first_content_shape [of data ch rest mg "prop_of mg (js ''content'')"]
    by (cases oc)
       (auto simp: callOpenRouter_snd callOpenRouter_fst openrouter_payload_def completion_content
        completion_fallback)
qed

theorem C5_counterexample:
  "fst (callOpenRouter node (HttpOk (chat_response (JNumber 42))) default_model
          (ReplyPrompt (JObject []) (js ''hi'')) (2 / 10) \<lparr>db = store0, trace = []\<rparr>)
     = Inr (JNumber 42)"
  by (simp add: callOpenRouter_fst completion_chat)

theorem C5_complete_witness:
  "fst (callOpenRouter node (HttpFailed Timeout) default_model
          (ReplyPrompt (JObject []) (js ''hi'')) (2 / 10) \<lparr>db = store0, trace = []\<rparr>)
     = Inl (AxiosError Timeout)
   \<and> first_content (chat_response (JString (js ''Hello!''))) = Some (JString (js ''Hello!''))
   \<and> truthy (JString (js ''Hello!''))
   \<and> fst (callOpenRouter node (HttpOk (chat_response (JString (js ''Hello!'')))) default_model
          (ReplyPrompt (JObject []) (js ''hi'')) (2 / 10) \<lparr>db = store0, trace = []\<rparr>)
     = Inr (JString (js ''Hello!''))
   \<and> \<not> truthy_val (first_content (JString (js ''Bad Gateway'')))
   \<and> fst (callOpenRouter node (HttpOk (JString (js ''Bad Gateway''))) default_model
          (ReplyPrompt (JObject []) (js ''hi'')) (2 / 10) \<lparr>db = store0, trace = []\<rparr>)
     = Inr (JString (js ''Bad Gateway''))"
proof -
  have c: "first_content (chat_response (JString (js ''Hello!''))) = Some (JString (js ''Hello!''))"
    by (simp add: first_content_def chat_response_def js_and_def prop_val_def index0_val_def Let_def)
  have t: "truthy (JString (js ''Hello!''))"
    by (simp add: js_def)
  have n: "\<not> truthy_val (first_content (JString (js ''Bad Gateway'')))"
    by (simp add: first_content_def js_and_def prop_val_def index0_val_def Let_def)
  have s: "js ''Bad Gateway'' \<noteq> []"
    by (simp add: js_def)
  note a = C5_complete [of node "HttpFailed Timeout" default_model
      "ReplyPrompt (JObject []) (js ''hi'')" "2 / 10" "\<lparr>db = store0, trace = []\<rparr>" Timeout]
  note b = C5_complete [of node "HttpOk (chat_response (JString (js ''Hello!'')))" default_model
      "ReplyPrompt (JObject []) (js ''hi'')" "2 / 10" "\<lparr>db = store0, trace = []\<rparr>" _
      "chat_response (JString (js ''Hello!''))" "JString (js ''Hello!'')"]
  note d = C5_complete [of node "HttpOk (JString (js ''Bad Gateway''))" default_model
      "ReplyPrompt (JObject []) (js ''hi'')" "2 / 10" "\<lparr>db = store0, trace = []\<rparr>" _
      "JString (js ''Bad Gateway'')"]
  show ?thesis
    using a b d c t n s by simp
qed

text \<open>
  C6. The fields of a reply that parses. As stated the claim fails: no field is checked
  against its enumeration or type. What holds: when the reply parses to a value other
  than null, each field of the record is the parsed value of that name when it is
  truthy, whatever it is, and otherwise (missing, null, empty, zero, false) the default:
  null for name and phone, "unknown" for priority and contact method, the empty string
  for notes.
\<close>

theorem C6_coercion:
  "(oc = HttpOk d \<and> completion rt d = JString s
      \<and> JSON_parse rt (if 0 \<le> indexOf brace s then slice_from (indexOf brace s) s else s)
          = Some parsed
      \<and> parsed \<noteq> JNull
     \<longrightarrow> fst (extractLeadStructured rt oc m msg ctx w)
          = Inr \<lparr>name = or_default (prop_of parsed (js ''name'')) JNull,
                  phone = or_default (prop_of parsed (js ''phone'')) JNull,
                  priority = or_default (prop_of parsed (js ''priority'')) (JString (js ''unknown'')),
                  contact_method =
                    or_default (prop_of parsed (js ''contact_method'')) (JString (js ''unknown'')),
                  notes' = or_default (prop_of parsed (js ''notes'')) (JString [])\<rparr>)
   \<and> (truthy v \<longrightarrow> or_default (Some v) dflt = v)
   \<and> (\<not> truthy_val a \<longrightarrow> or_default a dflt = dflt)"
  by (auto simp: extractLeadStructured_fst lead_of_reply_string or_default_def split: option.splits)

theorem C6_counterexample:
  "JSON_parse node (if 0 \<le> indexOf brace urgent_reply
                    then slice_from (indexOf brace urgent_reply) urgent_reply else urgent_reply)
     = Some (JObject [(js ''phone'', JString (js ''555-1234'')),
                      (js ''priority'', JString (js ''urgent''))])
   \<and> fst (extractLeadStructured node (HttpOk (chat_response (JString urgent_reply))) default_model
            (js ''call me at 555-1234, urgent'') (JObject []) \<lparr>db = store0, trace = []\<rparr>)
       = Inr \<lparr>name = JNull, phone = JString (js ''555-1234''), priority = JString (js ''urgent''),
               contact_method = JString (js ''unknown''), notes' = JString []\<rparr>
   \<and> JString (js ''urgent'')
       \<notin> {JString (js ''low''), JString (js ''medium''), JString (js ''high''),
          JString (js ''unknown'')}"
  using lead_of_urgent
  by (simp add: urgent_text urgent_parsed node_parse extractLeadStructured_fst
      completion_literals urgent_lead_def)
     (simp add: js_def)

theorem C6_coercion_witness:
  "completion node (chat_response (JString high_reply)) = JString high_reply
   \<and> JSON_parse node (if 0 \<le> indexOf brace high_reply
                       then slice_from (indexOf brace high_reply) high_reply else high_reply)
       = Some (JObject [(js ''name'', JString []), (js ''priority'', JString (js ''high'')),
                        (js ''notes'', JString (js ''call back''))])
   \<and> fst (extractLeadStructured node (HttpOk (chat_response (JString high_reply))) default_model
            (js ''call me at 555-1234, urgent'') (JObject []) \<lparr>db = store0, trace = []\<rparr>)
       = Inr \<lparr>name = JNull, phone = JNull, priority = JString (js ''high''),
               contact_method = JString (js ''unknown''), notes' = JString (js ''call back'')\<rparr>"
  using C6_coercion [of "HttpOk (chat_response (JString high_reply))"
      "chat_response (JString high_reply)" node high_reply
      "JObject [(js ''name'', JString []), (js ''priority'', JString (js ''high'')),
                (js ''notes'', JString (js ''call back''))]"
      default_model "js ''call me at 555-1234, urgent''" "JObject []" "\<lparr>db = store0, trace = []\<rparr>"]
  by (simp add: completion_replies high_text high_parsed node_parse)
     (simp add: or_default_def js_def)

text \<open>
  C7. Resolving the bot when the INSERT loses a race. As stated the claim fails: when
  the SELECT finds no row and the INSERT is rejected by the uniqueness constraint, the
  handler does not fetch the row that is there; the error propagates, the turn throws to
  the outer catch and the message is dropped. What holds: the UNIQUE constraint keeps
  the table free of duplicates (instance names that were distinct before the call are
  distinct after it, whatever the outcomes); the call ends in a uniqueness violation
  exactly when its SELECT ran and found no row, another handler's INSERT for the
  instance committed in between, and its own INSERT reached the database; then exactly
  one row has the instance, the SELECT and the INSERT were the only queries, and the
  turn of the loop ends with that error; a bot that the call returns is the one row of
  its instance.
\<close>

theorem C7_unique_bot:
  "(find_or_create_bot oc inst w = (r, w') \<and> distinct (map bot_instance_name (bots (db w))) \<longrightarrow>
      distinct (map bot_instance_name (bots (db w')))
      \<and> ((r = Inl UniqueViolation)
           = (select_bot oc \<and> find (\<lambda>b. bot_instance_name b = inst) (bots (db w)) = None
              \<and> rival_insert oc \<and> insert_bot oc))
      \<and> (r = Inl UniqueViolation \<longrightarrow>
            trace w' = trace w @ [PgQuery (SelectBot inst), PgQuery (InsertBot inst)]
            \<and> length (filter (\<lambda>b. bot_instance_name b = inst) (bots (db w'))) = 1)
      \<and> (\<forall>b. r = Inr b \<longrightarrow> filter (\<lambda>x. bot_instance_name x = inst) (bots (db w')) = [b]))
   \<and> (read_message cfg event msg = Inr (Some (sender, t, inst))
        \<and> find_or_create_bot oc inst w = (Inl e, w')
       \<longrightarrow> handle_message rt cfg oc event msg w = (Inl e, w'))"
proof (intro conjI impI)
  assume a: "find_or_create_bot oc inst w = (r, w') \<and> distinct (map bot_instance_name (bots (db w)))"
  then have d: "distinct (map bot_instance_name (bots (db w)))"
    and f: "find_or_create_bot oc inst w = (r, w')"
    by simp_all
  note e = f [unfolded find_or_create_bot_eq]
  show "distinct (map bot_instance_name (bots (db w')))"
    and "(r = Inl UniqueViolation)
           = (select_bot oc \<and> find (\<lambda>b. bot_instance_name b = inst) (bots (db w)) = None
              \<and> rival_insert oc \<and> insert_bot oc)"
    and "\<forall>b. r = Inr b \<longrightarrow> filter (\<lambda>x. bot_instance_name x = inst) (bots (db w')) = [b]"
    using e d insert_bot_row_props [of inst "db w"] distinct_find_filter [of bot_instance_name "bots (db w)" inst]
    by (auto simp: db_emit split: if_splits option.splits)
  assume u: "r = Inl UniqueViolation"
  show "trace w' = trace w @ [PgQuery (SelectBot inst), PgQuery (InsertBot inst)]"
    and "length (filter (\<lambda>b. bot_instance_name b = inst) (bots (db w'))) = 1"
    using e d u insert_bot_row_props [of inst "db w"]
    by (auto simp: db_emit split: if_splits option.splits)
next
  assume "read_message cfg event msg = Inr (Some (sender, t, inst))
        \<and> find_or_create_bot oc inst w = (Inl e, w')"
  then show "handle_message rt cfg oc event msg w = (Inl e, w')"
    by (simp add: handle_message_def)
qed

theorem C7_counterexample:
  "find_or_create_bot (all_ok\<lparr>rival_insert := True\<rparr>) (JString (js ''shop''))
       \<lparr>db = store0, trace = []\<rparr>
     = (Inl UniqueViolation,
        \<lparr>db = store0\<lparr>bots := [shop_bot], bots_seq := 1\<rparr>,
         trace = [PgQuery (SelectBot (JString (js ''shop''))),
                  PgQuery (InsertBot (JString (js ''shop'')))]\<rparr>)
   \<and> webhook node cfg_full (every (all_ok\<lparr>rival_insert := True\<rparr>)) event1 store0
     = \<lparr>db = store0\<lparr>bots := [shop_bot], bots_seq := 1\<rparr>,
        trace = [HttpRespond 200 ok_body, PgQuery (SelectBot (JString (js ''shop''))),
                 PgQuery (InsertBot (JString (js ''shop''))), ConsoleError UniqueViolation]\<rparr>"
  using rival_store0 [of "all_ok\<lparr>rival_insert := True\<rparr>" "[]"]
    rival_store0 [of "all_ok\<lparr>rival_insert := True\<rparr>" "[HttpRespond 200 ok_body]"]
  by (simp add: all_ok_simps webhook_event1 handle_message_def read_msg1 every_def emit_def)

theorem C7_unique_bot_witness:
  "find_or_create_bot (all_ok\<lparr>rival_insert := True\<rparr>) (JString (js ''shop''))
       \<lparr>db = store0, trace = []\<rparr>
     = (Inl UniqueViolation,
        \<lparr>db = store0\<lparr>bots := [shop_bot], bots_seq := 1\<rparr>,
         trace = [PgQuery (SelectBot (JString (js ''shop''))),
                  PgQuery (InsertBot (JString (js ''shop'')))]\<rparr>)
   \<and> distinct (map bot_instance_name (bots (db \<lparr>db = store0, trace = []\<rparr>)))
   \<and> read_message cfg_full event1 msg1
       = Inr (Some (Some (JString (js ''15551234'')), js ''call me at 555-1234, urgent'',
                    JString (js ''shop'')))
   \<and> length (filter (\<lambda>b. bot_instance_name b = JString (js ''shop''))
        (bots (store0\<lparr>bots := [shop_bot], bots_seq := 1\<rparr>))) = 1
   \<and> handle_message node cfg_full (all_ok\<lparr>rival_insert := True\<rparr>) event1 msg1
        \<lparr>db = store0, trace = []\<rparr>
     = (Inl UniqueViolation,
        \<lparr>db = store0\<lparr>bots := [shop_bot], bots_seq := 1\<rparr>,
         trace = [PgQuery (SelectBot (JString (js ''shop''))),
                  PgQuery (InsertBot (JString (js ''shop'')))]\<rparr>)"
proof -
  let ?oc = "all_ok\<lparr>rival_insert := True\<rparr>"
  let ?w = "\<lparr>db = store0, trace = []\<rparr>"
  let ?w' = "\<lparr>db = store0\<lparr>bots := [shop_bot], bots_seq := 1\<rparr>,
             trace = [PgQuery (SelectBot (JString (js ''shop''))),
                      PgQuery (InsertBot (JString (js ''shop'')))]\<rparr>"
  have f: "find_or_create_bot ?oc (JString (js ''shop'')) ?w = (Inl UniqueViolation, ?w')"
    using rival_store0 [of ?oc "[]"] by (simp add: all_ok_simps)
  have d: "distinct (map bot_instance_name (bots (db ?w)))"
    by (simp add: store0_def)
  note t = C7_unique_bot [of ?oc "JString (js ''shop'')" ?w "Inl UniqueViolation" ?w'
      cfg_full event1 msg1 "Some (JString (js ''15551234''))" "js ''call me at 555-1234, urgent''"
      UniqueViolation node]
  show ?thesis
    using t f d read_msg1 by simp
qed

text \<open>
  C8. The acknowledgment of the webhook. The first effect of the handler is the
  response 200 \<open>{ok: true}\<close>, before any query or call, and the handler sends no other
  response: status and body are the same for every event, store, configuration and
  outcome of the calls that follow.
\<close>

theorem C8_acknowledged_first:
  "trace (webhook rt cfg env event s)
     = HttpRespond 200 ok_body # tl (trace (webhook rt cfg env event s))
   \<and> filter is_response (tl (trace (webhook rt cfg env event s))) = []"
  using webhook_trace [of rt cfg env event s] by auto

theorem C8_acknowledged_first_witness:
  "trace (webhook node cfg_full (every (all_ok\<lparr>select_bot := False\<rparr>)) event1 store0)
     = HttpRespond 200 ok_body
       # [PgQuery (SelectBot (JString (js ''shop''))), ConsoleError PgError]
   \<and> filter is_response [PgQuery (SelectBot (JString (js ''shop''))), ConsoleError PgError] = []"
  using C8_acknowledged_first [of node cfg_full "every (all_ok\<lparr>select_bot := False\<rparr>)" event1 store0]
  by (simp add: select_fails)

text \<open>
  C9. deleteById is idempotent. A delete throws only when the query itself fails,
  whatever the id; when the query runs, it succeeds for every id, deleting twice leaves
  the store as deleting once does, and deleting an id that no row has leaves the
  store unchanged.
\<close>

theorem C9_delete_idempotent:
  "((\<exists>e. fst (deleteTempLeadById ok i w) = Inl e) \<longleftrightarrow> \<not> ok)
   \<and> fst (deleteTempLeadById True i w) = Inr ()
   \<and> db (snd (deleteTempLeadById True i (snd (deleteTempLeadById True i w))))
       = db (snd (deleteTempLeadById True i w))
   \<and> (i \<notin> lead_ids (db w) \<longrightarrow> db (snd (deleteTempLeadById True i w)) = db w)"
  by (simp add: deleteTempLeadById_def Let_def db_emit delete_where_id_twice
      delete_where_id_absent)

theorem C9_delete_idempotent_witness:
  "2 \<notin> lead_ids (db \<lparr>db = store1, trace = []\<rparr>)
   \<and> fst (deleteTempLeadById True 2 \<lparr>db = store1, trace = []\<rparr>) = Inr ()
   \<and> db (snd (deleteTempLeadById True 2 \<lparr>db = store1, trace = []\<rparr>)) = store1
   \<and> db (snd (deleteTempLeadById True 1 (snd (deleteTempLeadById True 1 \<lparr>db = store1, trace = []\<rparr>))))
       = store1\<lparr>temp_leads := []\<rparr>"
  using C9_delete_idempotent [of True 2 "\<lparr>db = store1, trace = []\<rparr>"]
    C9_delete_idempotent [of True 1 "\<lparr>db = store1, trace = []\<rparr>"]
  by (simp add: lead_ids_def store1_def row1_def deleteTempLeadById_def Let_def db_emit
      delete_where_id_def)

text \<open>
  C10. The admin retry with an id that no staged lead has. As stated the claim fails:
  the lookup stands in no try, so when it throws (the store cannot be reached, or it
  rejects the id) no response is sent. What holds: for such an id the lookup is the
  only call made (no sheet append, no notification, no DELETE) and the store is
  unchanged, whether the lookup succeeds or throws; when it succeeds the response is
  404 \<open>{error: "not found"}\<close>.
\<close>

theorem C10_retry_not_found:
  "(i \<notin> lead_ids s \<longrightarrow>
      retry_temp_lead cfg oc i s
        = (if retry_select oc
           then (Inr (), \<lparr>db = s, trace = [PgQuery (SelectTempLead i),
                                           HttpRespond 404 not_found_body]\<rparr>)
           else (Inl PgError, \<lparr>db = s, trace = [PgQuery (SelectTempLead i)]\<rparr>)))
   \<and> (\<not> retry_select oc \<longrightarrow>
        retry_temp_lead cfg oc i s
          = (Inl PgError, \<lparr>db = s, trace = [PgQuery (SelectTempLead i)]\<rparr>))"
  by (simp add: retry_temp_lead_def Let_def emit_def find_None_lead_ids [symmetric])

theorem C10_counterexample:
  "7 \<notin> lead_ids store1
   \<and> retry_temp_lead cfg_full (retry_ok\<lparr>retry_select := False\<rparr>) 7 store1
       = (Inl PgError, \<lparr>db = store1, trace = [PgQuery (SelectTempLead 7)]\<rparr>)"
  by (simp add: retry_temp_lead_def Let_def emit_def retry_ok_def lead_ids_def store1_def row1_id)

theorem C10_retry_not_found_witness:
  "7 \<notin> lead_ids store1 \<and> retry_select retry_ok
   \<and> retry_temp_lead cfg_full retry_ok 7 store1
     = (Inr (), \<lparr>db = store1, trace = [PgQuery (SelectTempLead 7), HttpRespond 404 not_found_body]\<rparr>)
   \<and> \<not> retry_select (retry_ok\<lparr>retry_select := False\<rparr>)
   \<and> retry_temp_lead cfg_full (retry_ok\<lparr>retry_select := False\<rparr>) 1 store1
     = (Inl PgError, \<lparr>db = store1, trace = [PgQuery (SelectTempLead 1)]\<rparr>)"
  using C10_retry_not_found [of 7 store1 cfg_full retry_ok]
    C10_retry_not_found [of 1 store1 cfg_full "retry_ok\<lparr>retry_select := False\<rparr>"]
  by (simp add: retry_ok_simps lead_ids_def store1_def row1_id)

end
